theory Spec2Isabelle
  imports Complex_Main "HOL-Library.AList" "HOL-Library.Log_Nat"
begin

text \<open>
  The budget aggregator of the personal-finance application: the server actions of
  \<^verbatim>\<open>src/app/actions/budgets.ts\<close> (list, get, create, update and delete of budgets
  scoped to the authenticated user, and the recursive total of a category tree) and the
  client-side copies of that total in \<^verbatim>\<open>src/components/budgets\<close>. The datastore
  client and the authentication provider are external: they are parameters of the
  model.
\<close>

section \<open>JavaScript numbers\<close>

text \<open>
  A JavaScript number is an IEEE 754 binary64 value: a finite one, given by the real
  number it stands for, or \<open>NaN\<close>, \<open>Infinity\<close> or \<open>-Infinity\<close>. The sum of two finite
  numbers is their exact sum rounded to the nearest binary64 value, a tie going to the
  even significand, and to an infinity when the rounded magnitude reaches \<open>2^1024\<close>.
  The significand has 53 bits and the least exponent of a unit in the last place is
  \<open>-1074\<close>. Negative zero is not told apart from zero: it is falsy and prints as \<open>0\<close>
  as zero does, and it adds as zero does to anything that is not itself a negative
  zero, which no total below is, each starting from \<open>0\<close>.
\<close>

datatype jsnum = Num real | NaN | Infinity | NegInfinity

text \<open>\<open>2\<close> to an integer power.\<close>

definition pow2 :: "int \<Rightarrow> real" where
  "pow2 k = (if 0 \<le> k then 2 ^ nat k else 1 / 2 ^ nat (- k))"

text \<open>For \<open>x > 0\<close>, the integer \<open>e\<close> with \<open>2^e \<le> x < 2^(e+1)\<close>.\<close>

definition ilog2 :: "real \<Rightarrow> int" where
  "ilog2 x = (if 1 \<le> x then bitlen \<lfloor>x\<rfloor> - 1 else - bitlen (\<lceil>1 / x\<rceil> - 1))"

text \<open>The nearest integer, a tie going to the even one.\<close>

definition round_half_even :: "real \<Rightarrow> int" where
  "round_half_even y =
     (let f = \<lfloor>y\<rfloor>; d = y - of_int f
      in if d < 1 / 2 then f else if 1 / 2 < d then f + 1 else if even f then f else f + 1)"

text \<open>The binary64 value nearest to a real.\<close>

definition round_double :: "real \<Rightarrow> jsnum" where
  "round_double r =
     (if r = 0 then Num 0
      else
        (let a = \<bar>r\<bar>;
             q = max (ilog2 a - 52) (- 1074);
             v = of_int (round_half_even (a / pow2 q)) * pow2 q
         in if 2 ^ 1024 \<le> v then (if 0 < r then Infinity else NegInfinity)
            else Num (if 0 < r then v else - v)))"

text \<open>\<open>a + b\<close> on two numbers.\<close>

fun js_add :: "jsnum \<Rightarrow> jsnum \<Rightarrow> jsnum" where
  "js_add (Num a) (Num b) = round_double (a + b)"
| "js_add NaN b = NaN"
| "js_add a NaN = NaN"
| "js_add Infinity NegInfinity = NaN"
| "js_add NegInfinity Infinity = NaN"
| "js_add Infinity b = Infinity"
| "js_add a Infinity = Infinity"
| "js_add NegInfinity b = NegInfinity"
| "js_add a NegInfinity = NegInfinity"

text \<open>Truthiness of a number: \<open>0\<close> and \<open>NaN\<close> are falsy.\<close>

fun truthy_num :: "jsnum \<Rightarrow> bool" where
  "truthy_num (Num x) = (x \<noteq> 0)"
| "truthy_num NaN = False"
| "truthy_num Infinity = True"
| "truthy_num NegInfinity = True"

section \<open>Values and the operator +\<close>

text \<open>
  A property that may be \<open>undefined\<close> or \<open>null\<close> at run time is a \<open>field\<close>. The
  \<open>amount\<close> of a category is read from a JSON column, so besides a number it can be
  any JSON value: a \<open>scalar\<close> is a number, a string, a boolean, or an array or object.
  A string is a list of pieces, each a literal text or the decimal rendering
  \<open>String(n)\<close> of a number, which is never empty. An array or object is given by the
  string that it converts to when it is an operand of \<open>+\<close>.
\<close>

datatype 'a field = Undefined | Null | Val 'a

datatype piece = Text string | Shown jsnum

datatype scalar = Number jsnum | Str "piece list" | Bool bool | Obj "piece list"

text \<open>\<open>String(x)\<close>.\<close>

fun to_pieces :: "scalar field \<Rightarrow> piece list" where
  "to_pieces (Val (Number n)) = [Shown n]"
| "to_pieces (Val (Str ps)) = ps"
| "to_pieces (Val (Bool b)) = [Text (if b then ''true'' else ''false'')]"
| "to_pieces (Val (Obj ps)) = ps"
| "to_pieces Null = [Text ''null'']"
| "to_pieces Undefined = [Text ''undefined'']"

text \<open>
  The number that an operand of \<open>+\<close> stands for when it is not a string and does not
  convert to one; \<open>None\<close> when it is or does.
\<close>

fun numeric_operand :: "scalar field \<Rightarrow> jsnum option" where
  "numeric_operand (Val (Number n)) = Some n"
| "numeric_operand (Val (Bool b)) = Some (Num (if b then 1 else 0))"
| "numeric_operand Null = Some (Num 0)"
| "numeric_operand Undefined = Some NaN"
| "numeric_operand (Val (Str ps)) = None"
| "numeric_operand (Val (Obj ps)) = None"

text \<open>
  \<open>a + b\<close>: the sum of two numbers when neither operand is a string, the concatenation
  of the two as strings otherwise.
\<close>

definition js_plus :: "scalar field \<Rightarrow> scalar field \<Rightarrow> scalar" where
  "js_plus a b =
     (case numeric_operand a of
        None \<Rightarrow> Str (to_pieces a @ to_pieces b)
      | Some x \<Rightarrow>
          (case numeric_operand b of
             None \<Rightarrow> Str (to_pieces a @ to_pieces b)
           | Some y \<Rightarrow> Number (js_add x y)))"

text \<open>
  Truthiness: \<open>undefined\<close>, \<open>null\<close>, \<open>0\<close>, \<open>NaN\<close>, the empty string and \<open>false\<close> are
  falsy.
\<close>

fun nonempty_piece :: "piece \<Rightarrow> bool" where
  "nonempty_piece (Text s) = (s \<noteq> [])"
| "nonempty_piece (Shown n) = True"

fun truthy_value :: "scalar field \<Rightarrow> bool" where
  "truthy_value Undefined = False"
| "truthy_value Null = False"
| "truthy_value (Val (Number n)) = truthy_num n"
| "truthy_value (Val (Str ps)) = list_ex nonempty_piece ps"
| "truthy_value (Val (Bool b)) = b"
| "truthy_value (Val (Obj ps)) = True"

text \<open>\<open>category.amount || 0\<close>.\<close>

fun amount_or_0 :: "scalar field \<Rightarrow> scalar" where
  "amount_or_0 (Val v) = (if truthy_value (Val v) then v else Number (Num 0))"
| "amount_or_0 Undefined = Number (Num 0)"
| "amount_or_0 Null = Number (Num 0)"

section \<open>Budget categories and the allocated total\<close>

text \<open>
  The interface \<open>BudgetCategory\<close> of \<^verbatim>\<open>src/app/actions/budgets.ts\<close> declares
  \<open>amount: number\<close> and \<open>subcategories: BudgetCategory[]\<close>. The functions below guard
  against both being absent, so the model lets them be absent: \<open>subcategories\<close> is an
  array of categories, \<open>null\<close> or \<open>undefined\<close>, and \<open>amount\<close> is any scalar,
  \<open>null\<close> or \<open>undefined\<close>.
\<close>

datatype category =
  Category (cat_id: string) (cat_name: string) (amount: "scalar field")
    (subcategories: "category list field")

text \<open>
  \<open>calculateTotalAllocated\<close> of \<^verbatim>\<open>src/app/actions/budgets.ts\<close> (lines 259-269), the
  server-side total. The \<open>for\<close> loop is \<open>calculateTotalAllocated_loop\<close>, with the running
  \<open>total\<close> as its first argument.
\<close>

function calculateTotalAllocated :: "category list \<Rightarrow> scalar"
  and calculateTotalAllocated_loop :: "scalar \<Rightarrow> category list \<Rightarrow> scalar" where
  "calculateTotalAllocated categories = calculateTotalAllocated_loop (Number (Num 0)) categories"
| "calculateTotalAllocated_loop tot [] = tot"
| "calculateTotalAllocated_loop tot (category # rest) =
     calculateTotalAllocated_loop
       (case subcategories category of
          Val subs \<Rightarrow>
            (if length subs > 0
             then js_plus (Val tot) (Val (calculateTotalAllocated subs))
             else js_plus (Val tot) (Val (amount_or_0 (amount category))))
        | _ \<Rightarrow> js_plus (Val tot) (Val (amount_or_0 (amount category))))
       rest"
  by pat_completeness auto
termination
proof (relation "measure (\<lambda>x. case x of Inl cs \<Rightarrow> 2 * size_list size cs + 1
                                     | Inr (t, cs) \<Rightarrow> 2 * size_list size cs)")
  fix tot :: scalar and category :: category and rest subs :: "category list"
  assume "subcategories category = Val subs"
  then have "size_list size subs < size category"
    by (cases category) simp
  then show "(Inl subs, Inr (tot, category # rest))
      \<in> measure (\<lambda>x. case x of Inl cs \<Rightarrow> 2 * size_list size cs + 1
                                | Inr (t, cs) \<Rightarrow> 2 * size_list size cs)"
    by simp
qed auto

text \<open>
  \<open>calculateTotalAllocated\<close> of \<^verbatim>\<open>src/components/budgets/budget-menu.tsx\<close>
  (lines 354-361), a client-side copy written with \<open>reduce\<close>.
\<close>

function menu_calculateTotalAllocated :: "category list \<Rightarrow> scalar"
  and menu_reduce :: "scalar \<Rightarrow> category list \<Rightarrow> scalar" where
  "menu_calculateTotalAllocated categories = menu_reduce (Number (Num 0)) categories"
| "menu_reduce tot [] = tot"
| "menu_reduce tot (category # rest) =
     menu_reduce
       (case subcategories category of
          Val subs \<Rightarrow>
            (if length subs > 0
             then js_plus (Val tot) (Val (menu_calculateTotalAllocated subs))
             else js_plus (Val tot) (Val (amount_or_0 (amount category))))
        | _ \<Rightarrow> js_plus (Val tot) (Val (amount_or_0 (amount category))))
       rest"
  by pat_completeness auto
termination
proof (relation "measure (\<lambda>x. case x of Inl cs \<Rightarrow> 2 * size_list size cs + 1
                                     | Inr (t, cs) \<Rightarrow> 2 * size_list size cs)")
  fix tot :: scalar and category :: category and rest subs :: "category list"
  assume "subcategories category = Val subs"
  then have "size_list size subs < size category"
    by (cases category) simp
  then show "(Inl subs, Inr (tot, category # rest))
      \<in> measure (\<lambda>x. case x of Inl cs \<Rightarrow> 2 * size_list size cs + 1
                                | Inr (t, cs) \<Rightarrow> 2 * size_list size cs)"
    by simp
qed auto

text \<open>
  \<open>calculateTotal\<close> inside \<open>BudgetForm\<close> of
  \<^verbatim>\<open>src/components/budgets/budget-menu.tsx\<close> (lines 166-174): the total behind the
  "Remaining" display of the form. It reads \<open>cat.subcategories.length\<close> and adds
  \<open>cat.amount\<close> with no guard: an absent \<open>subcategories\<close> raises a TypeError, which is
  the value \<open>None\<close> here.
\<close>

function form_calculateTotal :: "category list \<Rightarrow> scalar option"
  and form_reduce :: "scalar \<Rightarrow> category list \<Rightarrow> scalar option" where
  "form_calculateTotal categories = form_reduce (Number (Num 0)) categories"
| "form_reduce tot [] = Some tot"
| "form_reduce tot (cat # rest) =
     (case subcategories cat of
        Val subs \<Rightarrow>
          (if length subs > 0
           then (case form_calculateTotal subs of
                   None \<Rightarrow> None
                 | Some subTotal \<Rightarrow> form_reduce (js_plus (Val tot) (Val subTotal)) rest)
           else form_reduce (js_plus (Val tot) (amount cat)) rest)
      | _ \<Rightarrow> None)"
  by pat_completeness auto
termination
proof (relation "measure (\<lambda>x. case x of Inl cs \<Rightarrow> 2 * size_list size cs + 1
                                     | Inr (t, cs) \<Rightarrow> 2 * size_list size cs)")
  fix tot :: scalar and cat :: category and rest subs :: "category list"
  assume "subcategories cat = Val subs"
  then have "size_list size subs < size cat"
    by (cases cat) simp
  then show "(Inl subs, Inr (tot, cat # rest))
      \<in> measure (\<lambda>x. case x of Inl cs \<Rightarrow> 2 * size_list size cs + 1
                                | Inr (t, cs) \<Rightarrow> 2 * size_list size cs)"
    by simp
qed auto

text \<open>
  \<open>calculateTotal\<close> inside \<open>BudgetDetails\<close> of
  \<^verbatim>\<open>src/components/budgets/budget-dashboard.tsx\<close> (lines 232-244): the
  "Total Allocated" figure of the dashboard. It adds \<open>category.amount || 0\<close> for every
  category, then the total of the subcategories when there are any.
\<close>

function dashboard_calculateTotal :: "category list \<Rightarrow> scalar"
  and dashboard_loop :: "scalar \<Rightarrow> category list \<Rightarrow> scalar" where
  "dashboard_calculateTotal categories = dashboard_loop (Number (Num 0)) categories"
| "dashboard_loop tot [] = tot"
| "dashboard_loop tot (category # rest) =
     dashboard_loop
       (let tot1 = js_plus (Val tot) (Val (amount_or_0 (amount category)))
        in case subcategories category of
             Val subs \<Rightarrow>
               (if length subs > 0
                then js_plus (Val tot1) (Val (dashboard_calculateTotal subs))
                else tot1)
           | _ \<Rightarrow> tot1)
       rest"
  by pat_completeness auto
termination
proof (relation "measure (\<lambda>x. case x of Inl cs \<Rightarrow> 2 * size_list size cs + 1
                                     | Inr (t, cs) \<Rightarrow> 2 * size_list size cs)")
  fix tot :: scalar and category :: category and rest subs :: "category list"
  assume "subcategories category = Val subs"
  then have "size_list size subs < size category"
    by (cases category) simp
  then show "(Inl subs, Inr (tot, category # rest))
      \<in> measure (\<lambda>x. case x of Inl cs \<Rightarrow> 2 * size_list size cs + 1
                                | Inr (t, cs) \<Rightarrow> 2 * size_list size cs)"
    by simp
qed auto






text \<open>
  A parent category carrying an amount of its own, with two leaves, as the budget form
  can produce it (each category row has an amount input, with or without children).
\<close>

definition parent_with_amount :: "category list" where
  "parent_with_amount =
     [Category ''c1'' ''Hotel'' (Val (Number (Num 9999)))
        (Val [Category ''c2'' ''Deposit'' (Val (Number (Num 10))) (Val []),
              Category ''c3'' ''Balance'' (Val (Number (Num 20))) (Val [])])]"




section \<open>Budget documents, the datastore client and the authenticated user\<close>

text \<open>
  A budget, as passed to the server actions and as returned by the datastore, is a
  JavaScript object: an association list from property names to values, in insertion
  order. A property that is \<open>undefined\<close> is a key that is not there. The interface
  \<open>Budget\<close> types \<open>categories\<close> as \<open>BudgetCategory[]\<close>, the dates as strings and the
  amounts as numbers. A value is \<open>null\<close>, a number, a literal string, a string that
  \<open>+\<close> built, a boolean, an array or object given by the string it converts to, or an
  array of categories.
\<close>

datatype jsval =
    JNull
  | JNum jsnum
  | JStr string
  | JConcat "piece list"
  | JBool bool
  | JObj "piece list"
  | JCats "category list"

text \<open>A scalar as a value: the computed \<open>total_allocated\<close> is stored in a budget.\<close>

fun as_jsval :: "scalar \<Rightarrow> jsval" where
  "as_jsval (Number n) = JNum n"
| "as_jsval (Str ps) = JConcat ps"
| "as_jsval (Bool b) = JBool b"
| "as_jsval (Obj ps) = JObj ps"

type_synonym row = "(string \<times> jsval) list"

text \<open>The error object of a datastore response and the response \<open>{ data, error }\<close>.\<close>

record dberror =
  code :: string
  message :: string

record 'd response =
  data :: "'d option"
  error :: "dberror option"

text \<open>
  The five queries that \<^verbatim>\<open>src/app/actions/budgets.ts\<close> builds on the \<open>budgets\<close> table:
  \<^item> \<open>SelectList cols u\<close>: \<open>.select(cols).eq("user_id", u).order("start_date", desc)\<close>;
  \<^item> \<open>SelectSingle i u\<close>: \<open>.select('*').eq('id', i).eq('user_id', u).single()\<close>;
  \<^item> \<open>InsertSingle p\<close>: \<open>.insert(p).select().single()\<close>;
  \<^item> \<open>UpdateSingle p i u\<close>: \<open>.update(p).eq("id", i).eq("user_id", u).select().single()\<close>;
  \<^item> \<open>DeleteRows i u\<close>: \<open>.delete().eq("id", i).eq("user_id", u)\<close>.
\<close>

datatype request =
    SelectList "string list" string
  | SelectSingle string string
  | InsertSingle row
  | UpdateSingle row string string
  | DeleteRows string string

text \<open>
  The datastore client is an external collaborator: it is a parameter of every
  operation, one function per query, from the state \<open>'db\<close> of the datastore to a
  response and the next state.
\<close>

record 'db datastore =
  select_list :: "string list \<Rightarrow> string \<Rightarrow> 'db \<Rightarrow> row list response \<times> 'db"
  select_single :: "string \<Rightarrow> string \<Rightarrow> 'db \<Rightarrow> row response \<times> 'db"
  insert_single :: "row \<Rightarrow> 'db \<Rightarrow> row response \<times> 'db"
  update_single :: "row \<Rightarrow> string \<Rightarrow> string \<Rightarrow> 'db \<Rightarrow> row response \<times> 'db"
  delete_rows :: "string \<Rightarrow> string \<Rightarrow> 'db \<Rightarrow> unit response \<times> 'db"

text \<open>
  What an operation can change: the datastore, the log of the queries sent to it (in
  order), and the paths handed to \<open>revalidatePath\<close>.
\<close>

record 'db world =
  db :: 'db
  calls :: "request list"
  revalidated :: "string list"

definition send :: "request \<Rightarrow> ('db \<Rightarrow> 'd response \<times> 'db) \<Rightarrow> 'db world \<Rightarrow> 'd response \<times> 'db world" where
  "send rq q w = (case q (db w) of (r, d) \<Rightarrow> (r, w\<lparr>db := d, calls := calls w @ [rq]\<rparr>))"

definition revalidatePath :: "string \<Rightarrow> 'db world \<Rightarrow> 'db world" where
  "revalidatePath path w = w\<lparr>revalidated := revalidated w @ [path]\<rparr>"

text \<open>
  Every failure is a thrown \<open>Error\<close>: \<open>ClientError\<close> is
  \<open>new Error("Failed to create Supabase client")\<close>, \<open>AuthError\<close> is
  \<open>new Error("Authentication required")\<close>, and \<open>ValidationError m\<close> and
  \<open>StorageError m\<close> are \<open>new Error(m)\<close>, thrown by a check on the input and after a
  datastore error.
\<close>

datatype failure = ClientError | AuthError | ValidationError string | StorageError string

text \<open>Truthiness of a property read, and \<open>x == null\<close> (\<open>null\<close> or \<open>undefined\<close>).\<close>

fun truthy :: "jsval option \<Rightarrow> bool" where
  "truthy None = False"
| "truthy (Some JNull) = False"
| "truthy (Some (JNum n)) = truthy_num n"
| "truthy (Some (JStr s)) = (s \<noteq> [])"
| "truthy (Some (JConcat ps)) = list_ex nonempty_piece ps"
| "truthy (Some (JBool b)) = b"
| "truthy (Some (JObj ps)) = True"
| "truthy (Some (JCats cs)) = True"

definition nullish :: "jsval option \<Rightarrow> bool" where
  "nullish v = (v = None \<or> v = Some JNull)"

text \<open>\<open>budget.categories || []\<close>, for \<open>categories\<close> typed as an array, \<open>null\<close> or absent.\<close>

fun categories_or_empty :: "jsval option \<Rightarrow> category list" where
  "categories_or_empty (Some (JCats cs)) = cs"
| "categories_or_empty _ = []"

section \<open>The server actions\<close>

definition full_columns :: "string list" where
  "full_columns = [''id'', ''name'', ''amount'', ''start_date'', ''end_date'', ''categories'']"

definition fallback_columns :: "string list" where
  "fallback_columns = [''id'', ''name'', ''amount'', ''start_date'', ''end_date'']"

text \<open>The callback of \<open>map\<close> at the end of \<open>getBudgets\<close> (lines 70-74).\<close>

definition with_categories_and_total :: "row \<Rightarrow> row" where
  "with_categories_and_total budget =
     AList.update ''total_allocated''
       (as_jsval (calculateTotalAllocated (categories_or_empty (map_of budget ''categories''))))
       (AList.update ''categories''
          (JCats (categories_or_empty (map_of budget ''categories''))) budget)"

text \<open>\<open>budgets || []\<close>.\<close>

fun rows_or_empty :: "row list option \<Rightarrow> row list" where
  "rows_or_empty (Some budgets) = budgets"
| "rows_or_empty None = []"

text \<open>
  \<open>getBudgets\<close> (lines 36-75). \<open>supabase\<close> is the result of
  \<open>createServerSupabaseClient()\<close> and \<open>user\<close> is the \<open>id\<close> of the result of
  \<open>getAuthenticatedUser()\<close>; \<open>None\<close> is a null result.
\<close>

definition getBudgets ::
  "'db datastore option \<Rightarrow> string option \<Rightarrow> 'db world \<Rightarrow> (failure + row list) \<times> 'db world" where
  "getBudgets supabase user w =
     (case supabase of
        None \<Rightarrow> (Inr [], w)
      | Some ds \<Rightarrow>
     (case user of
        None \<Rightarrow> (Inr [], w)
      | Some user_id \<Rightarrow>
     (case send (SelectList full_columns user_id) (select_list ds full_columns user_id) w of
        (r, w1) \<Rightarrow>
     (case error r of
        None \<Rightarrow> (Inr (map with_categories_and_total (rows_or_empty (data r))), w1)
      | Some e \<Rightarrow>
          if code e = ''42703''
          then
            (case send (SelectList fallback_columns user_id)
                    (select_list ds fallback_columns user_id) w1 of
               (fr, w2) \<Rightarrow>
            (case error fr of
               Some fallbackError \<Rightarrow>
                 (Inl (StorageError (''Failed to fetch budgets: '' @ message fallbackError)), w2)
             | None \<Rightarrow>
                 (Inr (map with_categories_and_total (rows_or_empty (data fr))), w2)))
          else (Inl (StorageError (''Failed to fetch budgets: '' @ message e)), w1)))))"

text \<open>\<open>getBudgetById\<close> (lines 80-103).\<close>

definition getBudgetById ::
  "'db datastore option \<Rightarrow> string option \<Rightarrow> string \<Rightarrow> 'db world
     \<Rightarrow> (failure + row option) \<times> 'db world" where
  "getBudgetById supabase user i w =
     (case supabase of
        None \<Rightarrow> (Inl ClientError, w)
      | Some ds \<Rightarrow>
     (case user of
        None \<Rightarrow> (Inl AuthError, w)
      | Some user_id \<Rightarrow>
     (case send (SelectSingle i user_id) (select_single ds i user_id) w of
        (r, w1) \<Rightarrow>
     (case error r of
        Some e \<Rightarrow> (Inl (StorageError (''Failed to fetch budget: '' @ message e)), w1)
      | None \<Rightarrow>
     (case data r of
        None \<Rightarrow> (Inr None, w1)
      | Some budget \<Rightarrow>
          (Inr (Some (AList.update ''total_allocated''
                  (as_jsval (calculateTotalAllocated
                     (categories_or_empty (map_of budget ''categories''))))
                  budget)), w1))))))"

text \<open>
  The payload of \<open>createBudget\<close> (lines 114-128): \<open>total_allocated\<close> is left out,
  \<open>user_id\<close> is added, and the dates are sanitised. The result is the thrown error when
  the start date is falsy.
\<close>

definition createBudget_insertData :: "string \<Rightarrow> row \<Rightarrow> failure + row" where
  "createBudget_insertData user_id budgetData =
     (let dbSafeData = AList.delete ''total_allocated'' budgetData;
          insertData0 = AList.update ''user_id'' (JStr user_id) dbSafeData;
          insertData1 =
            (if map_of insertData0 ''end_date'' = Some (JStr [])
             then AList.update ''end_date'' JNull insertData0 else insertData0)
      in case map_of insertData1 ''start_date'' of
           None \<Rightarrow> Inl (ValidationError ''Start date is required and cannot be empty.'')
         | Some start_date \<Rightarrow>
             if truthy (Some start_date)
             then Inr (if nullish (map_of insertData1 ''end_date'')
                       then AList.update ''end_date'' start_date insertData1
                       else insertData1)
             else Inl (ValidationError ''Start date is required and cannot be empty.''))"

text \<open>\<open>createBudget\<close> (lines 108-162).\<close>

definition createBudget ::
  "'db datastore option \<Rightarrow> string option \<Rightarrow> row \<Rightarrow> 'db world
     \<Rightarrow> (failure + row option) \<times> 'db world" where
  "createBudget supabase user budgetData w =
     (case supabase of
        None \<Rightarrow> (Inl ClientError, w)
      | Some ds \<Rightarrow>
     (case user of
        None \<Rightarrow> (Inl AuthError, w)
      | Some user_id \<Rightarrow>
     (case createBudget_insertData user_id budgetData of
        Inl e \<Rightarrow> (Inl e, w)
      | Inr insertData \<Rightarrow>
     (case send (InsertSingle insertData) (insert_single ds insertData) w of
        (r, w1) \<Rightarrow>
     (case error r of
        None \<Rightarrow> (Inr (data r), revalidatePath ''/dashboard'' (revalidatePath ''/budgets'' w1))
      | Some e \<Rightarrow>
          if code e = ''42703'' \<or> code e = ''PGRST204''
          then
            (case send (InsertSingle (AList.delete ''categories'' insertData))
                    (insert_single ds (AList.delete ''categories'' insertData)) w1 of
               (fr, w2) \<Rightarrow>
            (case error fr of
               Some fallbackError \<Rightarrow>
                 (Inl (StorageError (''Error creating budget: '' @ message fallbackError)), w2)
             | None \<Rightarrow>
                 (Inr (data fr),
                  revalidatePath ''/dashboard'' (revalidatePath ''/budgets'' w2))))
          else (Inl (StorageError (''Error creating budget: '' @ message e)), w1))))))"

text \<open>
  The payload of \<open>updateBudget\<close> (lines 173-186). An empty start date is refused; a
  start date that is absent is not.
\<close>

definition updateBudget_updateData :: "row \<Rightarrow> failure + row" where
  "updateBudget_updateData budgetData =
     (let updateData0 = AList.delete ''total_allocated'' budgetData;
          updateData1 =
            (if map_of updateData0 ''end_date'' = Some (JStr [])
             then AList.update ''end_date'' JNull updateData0 else updateData0)
      in if map_of updateData1 ''start_date'' = Some (JStr [])
         then Inl (ValidationError ''Start date cannot be updated to be empty.'')
         else
           (case map_of updateData1 ''start_date'' of
              None \<Rightarrow> Inr updateData1
            | Some start_date \<Rightarrow>
                if nullish (map_of updateData1 ''end_date'') \<and> truthy (Some start_date)
                then Inr (AList.update ''end_date'' start_date updateData1)
                else Inr updateData1))"

text \<open>\<open>updateBudget\<close> (lines 167-225).\<close>

definition updateBudget ::
  "'db datastore option \<Rightarrow> string option \<Rightarrow> string \<Rightarrow> row \<Rightarrow> 'db world
     \<Rightarrow> (failure + row option) \<times> 'db world" where
  "updateBudget supabase user i budgetData w =
     (case supabase of
        None \<Rightarrow> (Inl ClientError, w)
      | Some ds \<Rightarrow>
     (case user of
        None \<Rightarrow> (Inl AuthError, w)
      | Some user_id \<Rightarrow>
     (case updateBudget_updateData budgetData of
        Inl e \<Rightarrow> (Inl e, w)
      | Inr updateData \<Rightarrow>
     (case send (UpdateSingle updateData i user_id) (update_single ds updateData i user_id) w of
        (r, w1) \<Rightarrow>
     (case error r of
        None \<Rightarrow>
          (Inr (data r),
           revalidatePath ''/dashboard''
             (revalidatePath ''/budgets'' (revalidatePath (''/budgets/'' @ i) w1)))
      | Some e \<Rightarrow>
          if code e = ''42703'' \<or> code e = ''PGRST204''
          then
            (case send (UpdateSingle (AList.delete ''categories'' updateData) i user_id)
                    (update_single ds (AList.delete ''categories'' updateData) i user_id) w1 of
               (fr, w2) \<Rightarrow>
            (case error fr of
               Some fallbackError \<Rightarrow>
                 (Inl (StorageError (''Error updating budget: '' @ message fallbackError)), w2)
             | None \<Rightarrow>
                 (Inr (data fr),
                  revalidatePath ''/dashboard''
                    (revalidatePath ''/budgets'' (revalidatePath (''/budgets/'' @ i) w2)))))
          else (Inl (StorageError (''Error updating budget: '' @ message e)), w1))))))"

text \<open>\<open>deleteBudget\<close> (lines 230-250); \<open>Inr ()\<close> is the result \<open>{ success: true }\<close>.\<close>

definition deleteBudget ::
  "'db datastore option \<Rightarrow> string option \<Rightarrow> string \<Rightarrow> 'db world \<Rightarrow> (failure + unit) \<times> 'db world" where
  "deleteBudget supabase user i w =
     (case supabase of
        None \<Rightarrow> (Inl ClientError, w)
      | Some ds \<Rightarrow>
     (case user of
        None \<Rightarrow> (Inl AuthError, w)
      | Some user_id \<Rightarrow>
     (case send (DeleteRows i user_id) (delete_rows ds i user_id) w of
        (r, w1) \<Rightarrow>
     (case error r of
        Some e \<Rightarrow> (Inl (StorageError (''Failed to delete budget: '' @ message e)), w1)
      | None \<Rightarrow> (Inr (), revalidatePath ''/dashboard'' (revalidatePath ''/budgets'' w1))))))"

section \<open>Reading the query log\<close>

text \<open>The queries sent between two worlds, and the payload that a query writes.\<close>

definition issued :: "'db world \<Rightarrow> 'db world \<Rightarrow> request list" where
  "issued w w' = drop (length (calls w)) (calls w')"

fun written :: "request \<Rightarrow> row option" where
  "written (InsertSingle p) = Some p"
| "written (UpdateSingle p i u) = Some p"
| "written _ = None"

definition init_world :: "'db \<Rightarrow> 'db world" where
  "init_world d = \<lparr>db = d, calls = [], revalidated = []\<rparr>"

section \<open>Reference datastores\<close>

text \<open>
  The by-key queries on an in-memory table of budget rows, following the contract of the
  PostgREST client that the actions are written against. The filter
  \<open>.eq("id", i).eq("user_id", u)\<close> keeps the rows whose \<open>id\<close> and \<open>user_id\<close> are the
  given ones. \<open>.single()\<close> answers with the row when the query results in exactly one
  row, and with the error \<open>PGRST116\<close> and no data otherwise, also when it results in
  none. \<open>update\<close>, which also ends in \<open>.single()\<close>, sets the columns of the payload
  on the row that the filter keeps when it keeps exactly one, and changes nothing
  otherwise. \<open>delete\<close> removes the rows that the filter keeps and reports no error when there is
  none. The list and insert queries are not part of this contract: they are taken from
  the datastore \<open>other\<close>.
\<close>

definition owned_with_id :: "string \<Rightarrow> string \<Rightarrow> row \<Rightarrow> bool" where
  "owned_with_id i u r =
     (map_of r ''id'' = Some (JStr i) \<and> map_of r ''user_id'' = Some (JStr u))"

definition not_a_single_row :: dberror where
  "not_a_single_row =
     \<lparr>code = ''PGRST116'',
      message = ''JSON object requested, multiple (or no) rows returned''\<rparr>"

definition table_select_single :: "string \<Rightarrow> string \<Rightarrow> row list \<Rightarrow> row response \<times> row list" where
  "table_select_single i u t =
     (case filter (owned_with_id i u) t of
        [r] \<Rightarrow> (\<lparr>data = Some r, error = None\<rparr>, t)
      | _ \<Rightarrow> (\<lparr>data = None, error = Some not_a_single_row\<rparr>, t))"

definition table_update_single ::
  "row \<Rightarrow> string \<Rightarrow> string \<Rightarrow> row list \<Rightarrow> row response \<times> row list" where
  "table_update_single p i u t =
     (case filter (owned_with_id i u) t of
        [r] \<Rightarrow>
          (\<lparr>data = Some (AList.merge r p), error = None\<rparr>,
           map (\<lambda>x. if owned_with_id i u x then AList.merge x p else x) t)
      | _ \<Rightarrow> (\<lparr>data = None, error = Some not_a_single_row\<rparr>, t))"

definition table_delete_rows :: "string \<Rightarrow> string \<Rightarrow> row list \<Rightarrow> unit response \<times> row list" where
  "table_delete_rows i u t =
     (\<lparr>data = None, error = None\<rparr>, filter (\<lambda>x. \<not> owned_with_id i u x) t)"

definition table_store :: "row list datastore \<Rightarrow> row list datastore" where
  "table_store other =
     other\<lparr>select_single := table_select_single,
           update_single := table_update_single,
           delete_rows := table_delete_rows\<rparr>"

text \<open>A datastore that answers every query with the error \<open>e\<close> and changes nothing.\<close>

definition failing_store :: "dberror \<Rightarrow> 'db datastore" where
  "failing_store e =
     \<lparr>select_list = (\<lambda>cols u d. (\<lparr>data = None, error = Some e\<rparr>, d)),
      select_single = (\<lambda>i u d. (\<lparr>data = None, error = Some e\<rparr>, d)),
      insert_single = (\<lambda>p d. (\<lparr>data = None, error = Some e\<rparr>, d)),
      update_single = (\<lambda>p i u d. (\<lparr>data = None, error = Some e\<rparr>, d)),
      delete_rows = (\<lambda>i u d. (\<lparr>data = None, error = Some e\<rparr>, d))\<rparr>"

text \<open>
  A scripted datastore: its state is the list of the outcomes to come, an error or
  success; each query takes the next one and answers with no data.
\<close>

fun next_outcome :: "dberror option list \<Rightarrow> 'd response \<times> dberror option list" where
  "next_outcome [] = (\<lparr>data = None, error = None\<rparr>, [])"
| "next_outcome (x # xs) = (\<lparr>data = None, error = x\<rparr>, xs)"

definition scripted_store :: "dberror option list datastore" where
  "scripted_store =
     \<lparr>select_list = (\<lambda>cols u. next_outcome),
      select_single = (\<lambda>i u. next_outcome),
      insert_single = (\<lambda>p. next_outcome),
      update_single = (\<lambda>p i u. next_outcome),
      delete_rows = (\<lambda>i u. next_outcome)\<rparr>"

definition undefined_column :: dberror where
  "undefined_column = \<lparr>code = ''42703'', message = ''column does not exist''\<rparr>"

definition connection_lost :: dberror where
  "connection_lost = \<lparr>code = ''08006'', message = ''connection failure''\<rparr>"

text \<open>
  The budget of the end-to-end scenario of the specification, as a stored row of user
  \<open>u1\<close>, with an end date of its own.
\<close>

definition trip_categories :: "category list" where
  "trip_categories =
     [Category ''c1'' ''Flights'' (Val (Number (Num 400))) (Val []),
      Category ''c2'' ''Hotel'' (Val (Number (Num 300)))
        (Val [Category ''c3'' ''Deposit'' (Val (Number (Num 150))) (Val []),
              Category ''c4'' ''Balance'' (Val (Number (Num 150))) (Val [])])]"

definition trip_budget :: row where
  "trip_budget =
     [(''id'', JStr ''b1''), (''user_id'', JStr ''u1''), (''name'', JStr ''Trip''),
      (''amount'', JNum (Num 1000)), (''start_date'', JStr ''2024-01-01''),
      (''end_date'', JStr ''2024-12-31''), (''categories'', JCats trip_categories)]"

section \<open>Predicates on the inputs\<close>

text \<open>An \<open>end_date\<close> that is omitted (absent or \<open>null\<close>) or the empty string.\<close>

definition blank :: "jsval option \<Rightarrow> bool" where
  "blank v = (v = None \<or> v = Some JNull \<or> v = Some (JStr []))"

text \<open>
  A category as \<open>BudgetCategory\<close> types it: \<open>subcategories\<close> is an array at every
  level and every category without subcategories has a number other than \<open>NaN\<close> as
  its \<open>amount\<close>.
\<close>

fun typed_category :: "category \<Rightarrow> bool" where
  "typed_category (Category i n a subs) =
     (case subs of
        Val cs \<Rightarrow>
          (if cs \<noteq> [] then list_all typed_category cs
           else (case a of Val (Number (Num x)) \<Rightarrow> True | _ \<Rightarrow> False))
      | _ \<Rightarrow> False)"

section \<open>Addition of numbers\<close>

text \<open>
  The sum of two integers is exact as long as it stays below \<open>2^53\<close> in magnitude:
  rounding leaves such an integer as it is. Above, it is not: \<open>2^53 + 1\<close> is a tie
  and goes to \<open>2^53\<close>.
\<close>

lemma ilog2_of_int: "0 < k \<Longrightarrow> ilog2 (of_int k) = bitlen k - 1"
  by (simp add: ilog2_def)

lemma round_half_even_of_int [simp]: "round_half_even (of_int n) = n"
  by (simp add: round_half_even_def)

lemma round_double_pos_int:
  assumes "0 < k" and "k < 2 ^ 53"
  shows "round_double (of_int k) = Num (of_int k)"
proof -
  define e where "e = bitlen k - 1"
  define n where "n = nat (52 - e)"
  from assms(1) have e0: "0 \<le> e"
    using bitlen_bounds [OF assms(1)] by (simp add: e_def bitlen_alt_def)
  have "bitlen k \<le> 53"
    using assms by (simp add: bitlen_le_iff_power)
  then have e52: "e \<le> 52" by (simp add: e_def)
  have q: "max (e - 52) (- 1074) = e - 52"
    using e0 by simp
  have p: "pow2 (e - 52) = 1 / 2 ^ n"
    using e52 by (auto simp: pow2_def n_def)
  have s: "real_of_int k / pow2 (e - 52) = of_int (k * 2 ^ n)"
    unfolding p by simp
  have v: "of_int (round_half_even (real_of_int k / pow2 (e - 52))) * pow2 (e - 52)
            = real_of_int k"
    unfolding s round_half_even_of_int unfolding p by simp
  have "real_of_int k < 2 ^ 53"
    using assms(2) by (metis of_int_less_numeral_power_cancel_iff)
  also have "\<dots> \<le> (2::real) ^ 1024"
    by (rule power_increasing) simp_all
  finally have small: "\<not> (2::real) ^ 1024 \<le> real_of_int k" by simp
  have i: "ilog2 (real_of_int k) = e"
    using assms(1) by (simp add: ilog2_of_int e_def)
  have k0: "real_of_int k \<noteq> 0" "\<bar>real_of_int k\<bar> = real_of_int k" "0 < real_of_int k"
    using assms(1) by simp_all
  show ?thesis
    unfolding round_double_def Let_def k0(2) i q v
    using k0 small by simp
qed

lemma round_double_int:
  assumes "\<bar>k\<bar> < 2 ^ 53"
  shows "round_double (of_int k) = Num (of_int k)"
proof (cases "0 < k")
  case True
  with assms show ?thesis by (simp add: round_double_pos_int)
next
  case False
  show ?thesis
  proof (cases "k = 0")
    case True
    then show ?thesis by (simp add: round_double_def)
  next
    case False
    with \<open>\<not> 0 < k\<close> have n: "0 < - k" "- k < 2 ^ 53"
      using assms by simp_all
    have "round_double (of_int k) = (case round_double (of_int (- k)) of
            Num v \<Rightarrow> Num (- v) | Infinity \<Rightarrow> NegInfinity | x \<Rightarrow> x)"
      using n(1) by (simp add: round_double_def Let_def)
    then show ?thesis
      using round_double_pos_int [OF n] by simp
  qed
qed

lemma round_double_numeral [simp]:
  "(numeral a :: int) < 2 ^ 53 \<Longrightarrow> round_double (numeral a) = Num (numeral a)"
  using round_double_int [of "numeral a"] by simp

lemma round_double_0 [simp]: "round_double 0 = Num 0"
  by (simp add: round_double_def)

lemma round_double_1 [simp]: "round_double 1 = Num 1"
  using round_double_int [of 1] by simp

lemma round_double_tie:
  "round_double 9007199254740992 = Num 9007199254740992"
  "round_double 9007199254740993 = Num 9007199254740992"
  "round_double 9007199254740994 = Num 9007199254740994"
proof -
  have b: "bitlen 9007199254740992 = 54" "bitlen 9007199254740993 = 54"
    "bitlen 9007199254740994 = 54"
    by code_simp+
  show "round_double 9007199254740992 = Num 9007199254740992"
    "round_double 9007199254740993 = Num 9007199254740992"
    "round_double 9007199254740994 = Num 9007199254740994"
    by (simp_all add: round_double_def ilog2_def pow2_def round_half_even_def Let_def b)
qed

text \<open>
  Two more sums, as the platform computes them: \<open>0.1 + 0.2\<close>, each operand being the
  binary64 value nearest to the decimal, is \<open>0.30000000000000004\<close>, and
  \<open>2^1023 + 2^1023\<close> overflows to \<open>Infinity\<close>.
\<close>

lemma js_add_tenths:
  "js_add (Num (3602879701896397 / 36028797018963968))
          (Num (3602879701896397 / 18014398509481984))
     = Num (1351079888211149 / 4503599627370496)"
proof -
  have b: "bitlen 3 = 2"
    by code_simp
  show ?thesis
    by (simp add: round_double_def ilog2_def pow2_def round_half_even_def Let_def b)
qed

lemma js_add_overflow: "js_add (Num (2 ^ 1023)) (Num (2 ^ 1023)) = Infinity"
proof -
  have b: "bitlen (2 ^ 1024) = 1025"
    by code_simp
  show ?thesis
    using b by (simp add: round_double_def ilog2_def pow2_def round_half_even_def Let_def)
qed

section \<open>The allocated total and the sum of the effective allocations\<close>


lemma js_plus_numbers [simp]:
  "js_plus (Val (Number x)) (Val (Number y)) = Number (js_add x y)"
  by (simp add: js_plus_def)





text \<open>
  The same three amounts with the large one last add up to \<open>2^53 + 2\<close>: the order of
  the categories matters.
\<close>

lemma large_amounts_reordered:
  "calculateTotalAllocated
     [Category ''c2'' ''Fee'' (Val (Number (Num 1))) (Val []),
      Category ''c3'' ''Tip'' (Val (Number (Num 1))) (Val []),
      Category ''c1'' ''Fund'' (Val (Number (Num 9007199254740992))) (Val [])]
   = Number (Num 9007199254740994)"
  by (simp add: js_plus_def round_double_tie)



section \<open>The client-side copies of the total\<close>

text \<open>
  The copy in \<^verbatim>\<open>budget-menu.tsx\<close> returns what the server-side function returns, on
  every list of categories.
\<close>

lemma menu_calculateTotalAllocated_eq_server:
  "menu_calculateTotalAllocated cs = calculateTotalAllocated cs"
  "menu_reduce tot cs = calculateTotalAllocated_loop tot cs"
proof (induction cs and tot cs rule: calculateTotalAllocated_calculateTotalAllocated_loop.induct)
  case (1 categories)
  then show ?case by simp
next
  case (2 tot)
  then show ?case by simp
next
  case (3 tot category rest)
  show ?case
  proof (cases "subcategories category")
    case (Val subs)
    show ?thesis
    proof (cases "length subs > 0")
      case True
      with Val "3.IH"(1) have "menu_calculateTotalAllocated subs = calculateTotalAllocated subs"
        by simp
      with Val True "3.IH"(2) show ?thesis by simp
    next
      case False
      with Val "3.IH"(2) show ?thesis by simp
    qed
  next
    case Undefined
    with "3.IH"(2) show ?thesis by simp
  next
    case Null
    with "3.IH"(2) show ?thesis by simp
  qed
qed

text \<open>
  The total behind the "Remaining" display of the budget form returns what the
  server-side function returns on the trees that \<open>BudgetCategory\<close> types. It has no
  \<open>|| 0\<close>: on a leaf whose amount is \<open>undefined\<close> it returns \<open>NaN\<close>, where the server
  counts 0.
\<close>

lemma typed_category_unfold:
  "typed_category c =
     (case subcategories c of
        Val cs \<Rightarrow>
          (if length cs > 0 then list_all typed_category cs
           else (case amount c of Val (Number (Num x)) \<Rightarrow> True | _ \<Rightarrow> False))
      | _ \<Rightarrow> False)"
  by (cases c) (simp split: field.split)

lemma typed_amount_or_0:
  "amount c = Val (Number (Num x)) \<Longrightarrow> Val (amount_or_0 (amount c)) = amount c"
  by simp

lemma form_calculateTotal_eq_server:
  "list_all typed_category cs \<Longrightarrow> form_calculateTotal cs = Some (calculateTotalAllocated cs)"
  "list_all typed_category cs \<Longrightarrow>
     form_reduce tot cs = Some (calculateTotalAllocated_loop tot cs)"
proof -
  have "list_all typed_category cs \<longrightarrow>
          form_calculateTotal cs = Some (calculateTotalAllocated cs)"
    and "list_all typed_category cs \<longrightarrow>
           form_reduce tot cs = Some (calculateTotalAllocated_loop tot cs)"
  proof (induction cs and tot cs rule: calculateTotalAllocated_calculateTotalAllocated_loop.induct)
    case (1 categories)
    then show ?case by simp
  next
    case (2 tot)
    then show ?case by simp
  next
    case (3 tot cat rest)
    show ?case
    proof
      assume typed: "list_all typed_category (cat # rest)"
      then have tc: "typed_category cat" and tr: "list_all typed_category rest"
        by simp_all
      from tc obtain subs where Val: "subcategories cat = Val subs"
        by (cases "subcategories cat") (simp_all add: typed_category_unfold [of cat])
      show "form_reduce tot (cat # rest) = Some (calculateTotalAllocated_loop tot (cat # rest))"
      proof (cases "length subs > 0")
        case True
        with tc Val have "list_all typed_category subs"
          by (simp add: typed_category_unfold [of cat])
        with Val True "3.IH"(1) have
          "form_calculateTotal subs = Some (calculateTotalAllocated subs)"
          by simp
        with Val True tr "3.IH"(2) show ?thesis by simp
      next
        case False
        with tc Val obtain x where a: "amount cat = Val (Number (Num x))"
          by (auto simp: typed_category_unfold [of cat]
              split: field.splits scalar.splits jsnum.splits)
        from a have "Val (amount_or_0 (amount cat)) = amount cat"
          by (rule typed_amount_or_0)
        with Val False tr "3.IH"(2) show ?thesis by simp
      qed
    qed
  qed
  then show "list_all typed_category cs \<Longrightarrow>
      form_calculateTotal cs = Some (calculateTotalAllocated cs)"
    and "list_all typed_category cs \<Longrightarrow>
      form_reduce tot cs = Some (calculateTotalAllocated_loop tot cs)"
    by simp_all
qed

lemma form_calculateTotal_undefined_amount:
  "form_calculateTotal [Category ''c1'' ''Flights'' Undefined (Val [])] = Some (Number NaN)
   \<and> calculateTotalAllocated [Category ''c1'' ''Flights'' Undefined (Val [])]
       = Number (Num 0)"
  by (simp add: js_plus_def)

text \<open>
  C2. The client-side total and the server-side total are the same on every category
  tree. The dashboard's \<open>calculateTotal\<close> is not: for a parent category with an amount
  of 9999 and two leaves of 10 and 20, which \<open>BudgetCategory\<close> types and the budget form
  can produce, the server-side total is 30 and the dashboard's "Total Allocated" is
  10029, the parent's own amount being added to that of its subcategories.
\<close>

theorem dashboard_total_adds_parent_amount:
  "list_all typed_category parent_with_amount
   \<and> calculateTotalAllocated parent_with_amount = Number (Num 30)
   \<and> menu_calculateTotalAllocated parent_with_amount = Number (Num 30)
   \<and> form_calculateTotal parent_with_amount = Some (Number (Num 30))
   \<and> dashboard_calculateTotal parent_with_amount = Number (Num 10029)"
  by (simp add: parent_with_amount_def js_plus_def)

section \<open>Authentication\<close>

text \<open>
  C3 (as stated). With a datastore client and no authenticated user, \<open>getBudgets\<close> does
  not fail with \<open>AuthError\<close>: it returns the empty list. And when no datastore client
  could be created, \<open>getBudgetById\<close> fails before it looks for the user, with the
  client error.
\<close>

theorem getBudgets_unauthenticated_returns_empty:
  "fst (getBudgets (Some (failing_store connection_lost)) None (init_world ())) = Inr []
   \<and> fst (getBudgets (Some (failing_store connection_lost)) None (init_world ()))
       \<noteq> Inl AuthError
   \<and> fst (getBudgetById None None ''b1'' (init_world ())) = Inl ClientError
   \<and> fst (getBudgetById None None ''b1'' (init_world ())) \<noteq> Inl AuthError"
  by (simp add: getBudgets_def getBudgetById_def)

text \<open>
  C3 (amended). When no authenticated user is resolved, \<open>getBudgets\<close> returns the empty
  list, and \<open>getBudgetById\<close>, \<open>updateBudget\<close> and \<open>deleteBudget\<close> fail with
  \<open>AuthError\<close> when the datastore client was created and with the client error when it
  was not. In each case the world is left as it was: no query is sent to the datastore.
\<close>

theorem unauthenticated_sends_no_query:
  "getBudgets supabase None w = (Inr [], w)
   \<and> getBudgetById (Some ds) None i w = (Inl AuthError, w)
   \<and> updateBudget (Some ds) None i budgetData w = (Inl AuthError, w)
   \<and> deleteBudget (Some ds) None i w = (Inl AuthError, w)
   \<and> getBudgetById None None i w = (Inl ClientError, w)
   \<and> updateBudget None None i budgetData w = (Inl ClientError, w)
   \<and> deleteBudget None None i w = (Inl ClientError, w)"
  by (simp add: getBudgets_def getBudgetById_def updateBudget_def deleteBudget_def
      split: option.split)

section \<open>Validation of the start date\<close>

lemma createBudget_insertData_falsy_start_date:
  "\<not> truthy (map_of budgetData ''start_date'') \<Longrightarrow>
   createBudget_insertData u budgetData
     = Inl (ValidationError ''Start date is required and cannot be empty.'')"
  by (auto simp: createBudget_insertData_def Let_def AList.update_conv' AList.delete_conv'
      split: option.splits if_splits)

text \<open>
  C6. A \<open>createBudget\<close> call whose \<open>start_date\<close> is missing or empty (falsy) fails
  with the validation error, for an authenticated user with a datastore client; and
  whoever calls, it fails and leaves the world as it was: no query, so no insert, is
  sent to the datastore.
\<close>

theorem createBudget_empty_start_date_rejected:
  assumes "\<not> truthy (map_of budgetData ''start_date'')"
  shows "createBudget (Some ds) (Some user_id) budgetData w
           = (Inl (ValidationError ''Start date is required and cannot be empty.''), w)
         \<and> (\<exists>e. createBudget supabase user budgetData w = (Inl e, w))"
  using assms
  by (auto simp: createBudget_def createBudget_insertData_falsy_start_date split: option.splits)

theorem createBudget_empty_start_date_rejected_witness:
  "\<not> truthy (map_of [(''name'', JStr ''Trip''), (''start_date'', JStr [])] ''start_date'')
   \<and> createBudget (Some scripted_store) (Some ''u1'')
        [(''name'', JStr ''Trip''), (''start_date'', JStr [])] (init_world [])
       = (Inl (ValidationError ''Start date is required and cannot be empty.''), init_world [])
   \<and> calls (snd (createBudget (Some scripted_store) (Some ''u1'')
        [(''name'', JStr ''Trip''), (''start_date'', JStr [])] (init_world []))) = []"
proof -
  have h: "\<not> truthy (map_of [(''name'', JStr ''Trip''), (''start_date'', JStr [])] ''start_date'')"
    by simp
  from createBudget_empty_start_date_rejected [OF h, of scripted_store "''u1''" "init_world []"]
  show ?thesis using h by (simp add: init_world_def)
qed

section \<open>The payloads written by create and update\<close>

lemma createBudget_issued:
  assumes "rq \<in> set (issued w (snd (createBudget supabase user budgetData w)))"
  obtains u p where "user = Some u" and "createBudget_insertData u budgetData = Inr p"
    and "rq = InsertSingle p \<or> rq = InsertSingle (AList.delete ''categories'' p)"
  using assms
  by (auto simp: createBudget_def send_def issued_def revalidatePath_def
      split: option.splits sum.splits prod.splits if_splits)

lemma updateBudget_issued:
  assumes "rq \<in> set (issued w (snd (updateBudget supabase user i budgetData w)))"
  obtains u p where "user = Some u" and "updateBudget_updateData budgetData = Inr p"
    and "rq = UpdateSingle p i u \<or> rq = UpdateSingle (AList.delete ''categories'' p) i u"
  using assms
  by (auto simp: updateBudget_def send_def issued_def revalidatePath_def
      split: option.splits sum.splits prod.splits if_splits)

lemma createBudget_insertData_no_total:
  "createBudget_insertData u budgetData = Inr p \<Longrightarrow> map_of p ''total_allocated'' = None"
  by (auto simp: createBudget_insertData_def Let_def AList.update_conv' AList.delete_conv'
      split: option.splits if_splits)

lemma updateBudget_updateData_no_total:
  "updateBudget_updateData budgetData = Inr p \<Longrightarrow> map_of p ''total_allocated'' = None"
  by (auto simp: updateBudget_updateData_def Let_def AList.update_conv' AList.delete_conv'
      split: option.splits if_splits)

text \<open>
  C10. Every query that \<open>createBudget\<close> or \<open>updateBudget\<close> sends to the datastore, the
  fallback retry included, is a write whose payload has no \<open>total_allocated\<close> field,
  whatever the input data holds.
\<close>

theorem total_allocated_never_written:
  "\<forall>rq \<in> set (issued w (snd (createBudget supabase user budgetData w)))
          \<union> set (issued w (snd (updateBudget supabase user i budgetData w))).
     \<exists>p. written rq = Some p \<and> map_of p ''total_allocated'' = None"
proof
  fix rq
  assume "rq \<in> set (issued w (snd (createBudget supabase user budgetData w)))
          \<union> set (issued w (snd (updateBudget supabase user i budgetData w)))"
  then consider
    (create) "rq \<in> set (issued w (snd (createBudget supabase user budgetData w)))"
  | (update) "rq \<in> set (issued w (snd (updateBudget supabase user i budgetData w)))"
    by blast
  then show "\<exists>p. written rq = Some p \<and> map_of p ''total_allocated'' = None"
  proof cases
    case create
    then obtain u p where "createBudget_insertData u budgetData = Inr p"
      and "rq = InsertSingle p \<or> rq = InsertSingle (AList.delete ''categories'' p)"
      by (rule createBudget_issued)
    then show ?thesis
      by (auto simp: createBudget_insertData_no_total AList.delete_conv')
  next
    case update
    then obtain u p where "updateBudget_updateData budgetData = Inr p"
      and "rq = UpdateSingle p i u \<or> rq = UpdateSingle (AList.delete ''categories'' p) i u"
      by (rule updateBudget_issued)
    then show ?thesis
      by (auto simp: updateBudget_updateData_no_total AList.delete_conv')
  qed
qed

lemma createBudget_trip_with_total:
  "issued (init_world []) (snd (createBudget (Some scripted_store) (Some ''u1'')
      [(''name'', JStr ''Trip''), (''amount'', JNum (Num 1000)),
       (''start_date'', JStr ''2024-01-01''), (''end_date'', JStr []),
       (''total_allocated'', JNum (Num 700))] (init_world [])))
   = [InsertSingle
        [(''name'', JStr ''Trip''), (''amount'', JNum (Num 1000)),
         (''start_date'', JStr ''2024-01-01''), (''end_date'', JStr ''2024-01-01''),
         (''user_id'', JStr ''u1'')]]"
  by (simp add: createBudget_def createBudget_insertData_def send_def scripted_store_def
      init_world_def issued_def revalidatePath_def nullish_def)

lemma updateBudget_trip_with_total:
  "issued (init_world []) (snd (updateBudget (Some scripted_store) (Some ''u1'') ''b1''
      [(''amount'', JNum (Num 500)), (''start_date'', JStr ''2024-02-01''),
       (''end_date'', JStr []), (''total_allocated'', JNum (Num 700))] (init_world [])))
   = [UpdateSingle
        [(''amount'', JNum (Num 500)), (''start_date'', JStr ''2024-02-01''),
         (''end_date'', JStr ''2024-02-01'')] ''b1'' ''u1'']"
  by (simp add: updateBudget_def updateBudget_updateData_def send_def scripted_store_def
      init_world_def issued_def revalidatePath_def nullish_def)

theorem total_allocated_never_written_witness:
  "list_all (\<lambda>rq. \<exists>p. written rq = Some p \<and> map_of p ''total_allocated'' = None)
     (issued (init_world []) (snd (createBudget (Some scripted_store) (Some ''u1'')
        [(''name'', JStr ''Trip''), (''amount'', JNum (Num 1000)),
         (''start_date'', JStr ''2024-01-01''), (''end_date'', JStr []),
         (''total_allocated'', JNum (Num 700))] (init_world []))))
   \<and> length (issued (init_world []) (snd (createBudget (Some scripted_store) (Some ''u1'')
        [(''name'', JStr ''Trip''), (''amount'', JNum (Num 1000)),
         (''start_date'', JStr ''2024-01-01''), (''end_date'', JStr []),
         (''total_allocated'', JNum (Num 700))] (init_world [])))) = 1"
  using total_allocated_never_written [of "init_world []" "Some scripted_store" "Some ''u1''"
      "[(''name'', JStr ''Trip''), (''amount'', JNum (Num 1000)),
        (''start_date'', JStr ''2024-01-01''), (''end_date'', JStr []),
        (''total_allocated'', JNum (Num 700))]" "''b1''"]
  by (simp add: createBudget_trip_with_total list_all_iff)

section \<open>The end date\<close>

lemma createBudget_insertData_end_date:
  assumes "blank (map_of budgetData ''end_date'')"
    and "createBudget_insertData u budgetData = Inr p"
  shows "map_of p ''end_date'' = map_of p ''start_date'' \<and> truthy (map_of p ''end_date'')"
  using assms
  by (auto simp: createBudget_insertData_def Let_def blank_def nullish_def
      AList.update_conv' AList.delete_conv' split: option.splits if_splits)

lemma updateBudget_updateData_end_date:
  assumes "blank (map_of budgetData ''end_date'')"
    and "truthy (map_of budgetData ''start_date'')"
  shows "\<exists>p. updateBudget_updateData budgetData = Inr p \<and>
     map_of p ''end_date'' = map_of p ''start_date'' \<and> truthy (map_of p ''end_date'')"
  using assms
  by (auto simp: updateBudget_updateData_def Let_def blank_def nullish_def
      AList.update_conv' AList.delete_conv' split: option.splits if_splits)

lemma updateBudget_updateData_no_dates:
  assumes "map_of budgetData ''end_date'' = None"
    and "map_of budgetData ''start_date'' = None"
  shows "\<exists>p. updateBudget_updateData budgetData = Inr p \<and>
     map_of p ''end_date'' = None \<and> map_of p ''start_date'' = None"
  using assms
  by (auto simp: updateBudget_updateData_def Let_def blank_def nullish_def
      AList.update_conv' AList.delete_conv' split: option.splits if_splits)

text \<open>
  C4 (as stated). The stored budget \<open>trip_budget\<close> starts on 2024-01-01 and ends on
  2024-12-31. The update \<open>{amount: 500}\<close> omits \<open>end_date\<close>; the budget persisted by
  that call still ends on 2024-12-31, which is not its start date.
\<close>

theorem update_amount_keeps_distinct_end_date:
  "map_of [(''amount'', JNum (Num 500))] ''end_date'' = None
   \<and> db (snd (updateBudget (Some (table_store (failing_store connection_lost)))
           (Some ''u1'') ''b1'' [(''amount'', JNum (Num 500))] (init_world [trip_budget])))
     = [[(''id'', JStr ''b1''), (''user_id'', JStr ''u1''), (''name'', JStr ''Trip''),
         (''amount'', JNum (Num 500)), (''start_date'', JStr ''2024-01-01''),
         (''end_date'', JStr ''2024-12-31''), (''categories'', JCats trip_categories)]]"
  by (simp add: updateBudget_def updateBudget_updateData_def send_def table_store_def
      table_update_single_def owned_with_id_def init_world_def trip_budget_def
      revalidatePath_def)

text \<open>
  C4 (amended). When \<open>end_date\<close> is omitted, \<open>null\<close> or the empty string, every payload
  that \<open>createBudget\<close> writes, and every payload that \<open>updateBudget\<close> writes for input
  data with a non-empty \<open>start_date\<close>, has an \<open>end_date\<close> equal to its \<open>start_date\<close>
  and not null. An update that supplies neither date writes neither, so the stored
  dates stay as they were.
\<close>

theorem blank_end_date_written_as_start_date:
  assumes "blank (map_of budgetData ''end_date'')"
  shows "(\<forall>rq \<in> set (issued w (snd (createBudget supabase user budgetData w))).
            \<exists>p. written rq = Some p \<and> map_of p ''end_date'' = map_of p ''start_date''
                 \<and> truthy (map_of p ''end_date''))
       \<and> (truthy (map_of budgetData ''start_date'') \<longrightarrow>
            (\<forall>rq \<in> set (issued w (snd (updateBudget supabase user i budgetData w))).
               \<exists>p. written rq = Some p \<and> map_of p ''end_date'' = map_of p ''start_date''
                    \<and> truthy (map_of p ''end_date'')))
       \<and> (map_of budgetData ''end_date'' = None \<and> map_of budgetData ''start_date'' = None \<longrightarrow>
            (\<forall>rq \<in> set (issued w (snd (updateBudget supabase user i budgetData w))).
               \<exists>p. written rq = Some p \<and> map_of p ''end_date'' = None
                    \<and> map_of p ''start_date'' = None))"
proof (intro conjI impI ballI)
  fix rq
  assume "rq \<in> set (issued w (snd (createBudget supabase user budgetData w)))"
  then obtain u p where p: "createBudget_insertData u budgetData = Inr p"
    and rq: "rq = InsertSingle p \<or> rq = InsertSingle (AList.delete ''categories'' p)"
    by (rule createBudget_issued)
  from createBudget_insertData_end_date [OF assms p] rq
  show "\<exists>p. written rq = Some p \<and> map_of p ''end_date'' = map_of p ''start_date''
             \<and> truthy (map_of p ''end_date'')"
    by (auto simp: AList.delete_conv')
next
  fix rq
  assume st: "truthy (map_of budgetData ''start_date'')"
  assume "rq \<in> set (issued w (snd (updateBudget supabase user i budgetData w)))"
  then obtain u p where p: "updateBudget_updateData budgetData = Inr p"
    and rq: "rq = UpdateSingle p i u \<or> rq = UpdateSingle (AList.delete ''categories'' p) i u"
    by (rule updateBudget_issued)
  from updateBudget_updateData_end_date [OF assms st] p rq
  show "\<exists>p. written rq = Some p \<and> map_of p ''end_date'' = map_of p ''start_date''
             \<and> truthy (map_of p ''end_date'')"
    by (auto simp: AList.delete_conv')
next
  fix rq
  assume nd: "map_of budgetData ''end_date'' = None \<and> map_of budgetData ''start_date'' = None"
  assume "rq \<in> set (issued w (snd (updateBudget supabase user i budgetData w)))"
  then obtain u p where p: "updateBudget_updateData budgetData = Inr p"
    and rq: "rq = UpdateSingle p i u \<or> rq = UpdateSingle (AList.delete ''categories'' p) i u"
    by (rule updateBudget_issued)
  from updateBudget_updateData_no_dates [of budgetData] nd p rq
  show "\<exists>p. written rq = Some p \<and> map_of p ''end_date'' = None
                    \<and> map_of p ''start_date'' = None"
    by (auto simp: AList.delete_conv')
qed

lemma updateBudget_only_amount:
  "issued (init_world []) (snd (updateBudget (Some scripted_store) (Some ''u1'') ''b1''
      [(''amount'', JNum (Num 500))] (init_world [])))
   = [UpdateSingle [(''amount'', JNum (Num 500))] ''b1'' ''u1'']"
  by (simp add: updateBudget_def updateBudget_updateData_def send_def scripted_store_def
      init_world_def issued_def revalidatePath_def nullish_def)

theorem blank_end_date_written_as_start_date_witness:
  "blank (map_of [(''name'', JStr ''Trip''), (''amount'', JNum (Num 1000)),
       (''start_date'', JStr ''2024-01-01''), (''end_date'', JStr []),
       (''total_allocated'', JNum (Num 700))] ''end_date'')
   \<and> list_all (\<lambda>rq. \<exists>p. written rq = Some p
          \<and> map_of p ''end_date'' = Some (JStr ''2024-01-01'')
          \<and> map_of p ''start_date'' = Some (JStr ''2024-01-01''))
       (issued (init_world []) (snd (createBudget (Some scripted_store) (Some ''u1'')
          [(''name'', JStr ''Trip''), (''amount'', JNum (Num 1000)),
           (''start_date'', JStr ''2024-01-01''), (''end_date'', JStr []),
           (''total_allocated'', JNum (Num 700))] (init_world []))))
   \<and> length (issued (init_world []) (snd (createBudget (Some scripted_store) (Some ''u1'')
          [(''name'', JStr ''Trip''), (''amount'', JNum (Num 1000)),
           (''start_date'', JStr ''2024-01-01''), (''end_date'', JStr []),
           (''total_allocated'', JNum (Num 700))] (init_world [])))) = 1
   \<and> blank (map_of [(''amount'', JNum (Num 500)), (''start_date'', JStr ''2024-02-01''),
       (''end_date'', JStr []), (''total_allocated'', JNum (Num 700))] ''end_date'')
   \<and> truthy (map_of [(''amount'', JNum (Num 500)), (''start_date'', JStr ''2024-02-01''),
       (''end_date'', JStr []), (''total_allocated'', JNum (Num 700))] ''start_date'')
   \<and> list_all (\<lambda>rq. \<exists>p. written rq = Some p
          \<and> map_of p ''end_date'' = Some (JStr ''2024-02-01'')
          \<and> map_of p ''start_date'' = Some (JStr ''2024-02-01''))
       (issued (init_world []) (snd (updateBudget (Some scripted_store) (Some ''u1'') ''b1''
          [(''amount'', JNum (Num 500)), (''start_date'', JStr ''2024-02-01''),
           (''end_date'', JStr []), (''total_allocated'', JNum (Num 700))] (init_world []))))
   \<and> blank (map_of [(''amount'', JNum (Num 500))] ''end_date'')
   \<and> map_of [(''amount'', JNum (Num 500))] ''start_date'' = None
   \<and> list_all (\<lambda>rq. \<exists>p. written rq = Some p
          \<and> map_of p ''end_date'' = None \<and> map_of p ''start_date'' = None)
       (issued (init_world []) (snd (updateBudget (Some scripted_store) (Some ''u1'') ''b1''
          [(''amount'', JNum (Num 500))] (init_world []))))"
proof -
  have h: "blank (map_of [(''name'', JStr ''Trip''), (''amount'', JNum (Num 1000)),
       (''start_date'', JStr ''2024-01-01''), (''end_date'', JStr []),
       (''total_allocated'', JNum (Num 700))] ''end_date'')"
    by (simp add: blank_def)
  from blank_end_date_written_as_start_date [OF h, of "init_world []" "Some scripted_store"
      "Some ''u1''" "''b1''"]
  show ?thesis
    by (simp add: createBudget_trip_with_total updateBudget_trip_with_total
        updateBudget_only_amount blank_def)
qed

text \<open>
  An update whose \<open>end_date\<close> is the empty string and which supplies no \<open>start_date\<close>
  writes \<open>end_date: null\<close>: line 178 turns the empty string into \<open>null\<close> and line 184
  has no start date to put in its place.
\<close>

lemma update_empty_end_date_without_start_date:
  "issued (init_world []) (snd (updateBudget (Some scripted_store) (Some ''u1'') ''b1''
      [(''end_date'', JStr [])] (init_world [])))
   = [UpdateSingle [(''end_date'', JNull)] ''b1'' ''u1'']"
  by (simp add: updateBudget_def updateBudget_updateData_def send_def scripted_store_def
      init_world_def issued_def revalidatePath_def nullish_def)

section \<open>Partial updates\<close>

lemma updateBudget_updateData_fields:
  assumes "updateBudget_updateData budgetData = Inr p"
  shows "k \<noteq> ''end_date'' \<Longrightarrow> k \<noteq> ''total_allocated'' \<Longrightarrow> map_of p k = map_of budgetData k"
    and "\<not> blank (map_of budgetData ''end_date'') \<Longrightarrow>
           map_of p ''end_date'' = map_of budgetData ''end_date''"
    and "blank (map_of budgetData ''end_date'') \<and> truthy (map_of budgetData ''start_date'') \<Longrightarrow>
           map_of p ''end_date'' = map_of budgetData ''start_date''"
    and "map_of budgetData ''end_date'' = None \<and> \<not> truthy (map_of budgetData ''start_date'') \<Longrightarrow>
           map_of p ''end_date'' = None"
  using assms
  by (auto simp: updateBudget_updateData_def Let_def blank_def nullish_def
      AList.update_conv' AList.delete_conv' split: option.splits if_splits)

lemma table_store_simps:
  "select_single (table_store other) = table_select_single"
  "update_single (table_store other) = table_update_single"
  "delete_rows (table_store other) = table_delete_rows"
  by (simp_all add: table_store_def)

lemma getBudgetById_table:
  "fst (getBudgetById (Some (table_store other)) (Some u) i w) =
     (case filter (owned_with_id i u) (db w) of
        [budget] \<Rightarrow>
          Inr (Some (AList.update ''total_allocated''
            (as_jsval (calculateTotalAllocated (categories_or_empty (map_of budget ''categories''))))
            budget))
      | _ \<Rightarrow> Inl (StorageError (''Failed to fetch budget: '' @ message not_a_single_row)))"
  by (simp add: getBudgetById_def send_def table_store_simps table_select_single_def
      split: prod.splits list.splits)

lemma filter_map_if:
  "(\<And>x. P (g x) = P x) \<Longrightarrow>
   filter P (map (\<lambda>x. if P x then g x else x) t) = map g (filter P t)"
  by (induction t) auto

lemma owned_with_id_amount:
  "owned_with_id i u (AList.merge x [(''amount'', v)]) = owned_with_id i u x"
  by (simp add: owned_with_id_def AList.update_conv')

lemma filter_update_amount:
  "filter (owned_with_id i u)
     (map (\<lambda>x. if owned_with_id i u x then AList.merge x [(''amount'', v)] else x) t)
   = map (\<lambda>x. AList.merge x [(''amount'', v)]) (filter (owned_with_id i u) t)"
  by (rule filter_map_if) (rule owned_with_id_amount)

lemma updateBudget_updateData_amount:
  "updateBudget_updateData [(''amount'', v)] = Inr [(''amount'', v)]"
  by (simp add: updateBudget_updateData_def)

lemma updateBudget_amount_table:
  assumes "filter (owned_with_id i u) (db w) = [r]"
  shows "fst (updateBudget (Some (table_store other)) (Some u) i [(''amount'', JNum a)] w)
           = Inr (Some (AList.update ''amount'' (JNum a) r))"
    and "filter (owned_with_id i u)
           (db (snd (updateBudget (Some (table_store other)) (Some u) i [(''amount'', JNum a)] w)))
           = [AList.update ''amount'' (JNum a) r]"
  using assms
  by (simp_all add: updateBudget_def updateBudget_updateData_amount send_def table_store_simps
      table_update_single_def revalidatePath_def filter_update_amount
      split: prod.splits)

text \<open>
  C8 (as stated). The update \<open>{start_date: "2024-02-01"}\<close> supplies no \<open>end_date\<close>,
  yet the stored \<open>end_date\<close> of \<open>trip_budget\<close>, 2024-12-31, is replaced by 2024-02-01.
\<close>

theorem update_start_date_overwrites_end_date:
  "map_of [(''start_date'', JStr ''2024-02-01'')] ''end_date'' = None
   \<and> map_of trip_budget ''end_date'' = Some (JStr ''2024-12-31'')
   \<and> db (snd (updateBudget (Some (table_store (failing_store connection_lost)))
           (Some ''u1'') ''b1'' [(''start_date'', JStr ''2024-02-01'')]
           (init_world [trip_budget])))
     = [[(''id'', JStr ''b1''), (''user_id'', JStr ''u1''), (''name'', JStr ''Trip''),
         (''amount'', JNum (Num 1000)), (''start_date'', JStr ''2024-02-01''),
         (''end_date'', JStr ''2024-02-01''), (''categories'', JCats trip_categories)]]"
  by (simp add: updateBudget_def updateBudget_updateData_def send_def table_store_def
      table_update_single_def owned_with_id_def init_world_def trip_budget_def
      revalidatePath_def nullish_def)

text \<open>
  C8 (amended). Every payload that \<open>updateBudget\<close> writes has no \<open>total_allocated\<close>,
  has the \<open>categories\<close> of the input data or, in the fallback retry, none, and has
  every other field except \<open>end_date\<close> exactly as the input data has it, absent when
  it is absent there. Its \<open>end_date\<close> is the one supplied when that is not blank
  (neither \<open>null\<close> nor the empty string); it is the supplied \<open>start_date\<close> when the
  \<open>end_date\<close> is omitted or blank and the \<open>start_date\<close> is non-empty; and it is
  absent when the \<open>end_date\<close> is omitted and no non-empty \<open>start_date\<close> is supplied.
  Nothing is said of an \<open>end_date\<close> supplied as \<open>null\<close> or as the empty string
  without a non-empty \<open>start_date\<close>. On the budgets table, an update that supplies only
  \<open>amount\<close>, to any value, succeeds and returns the stored budget with the new amount;
  a get before and a get after return the same \<open>categories\<close> and the same
  \<open>total_allocated\<close>.
\<close>

theorem update_writes_supplied_fields:
  "(\<forall>rq \<in> set (issued w (snd (updateBudget supabase user i budgetData w))).
      \<exists>p. written rq = Some p
        \<and> map_of p ''total_allocated'' = None
        \<and> (map_of p ''categories'' = None
             \<or> map_of p ''categories'' = map_of budgetData ''categories'')
        \<and> (\<forall>k. k \<notin> {''end_date'', ''total_allocated'', ''categories''} \<longrightarrow>
               map_of p k = map_of budgetData k)
        \<and> (\<not> blank (map_of budgetData ''end_date'') \<longrightarrow>
               map_of p ''end_date'' = map_of budgetData ''end_date'')
        \<and> (blank (map_of budgetData ''end_date'') \<and> truthy (map_of budgetData ''start_date'') \<longrightarrow>
               map_of p ''end_date'' = map_of budgetData ''start_date'')
        \<and> (map_of budgetData ''end_date'' = None \<and> \<not> truthy (map_of budgetData ''start_date'') \<longrightarrow>
               map_of p ''end_date'' = None))
   \<and> (filter (owned_with_id j u) (db t) = [r] \<longrightarrow>
        (\<exists>b b'.
            fst (getBudgetById (Some (table_store other)) (Some u) j t) = Inr (Some b)
          \<and> fst (updateBudget (Some (table_store other)) (Some u) j [(''amount'', JNum a)] t)
              = Inr (Some (AList.update ''amount'' (JNum a) r))
          \<and> fst (getBudgetById (Some (table_store other)) (Some u) j
                (snd (updateBudget (Some (table_store other)) (Some u) j
                   [(''amount'', JNum a)] t)))
              = Inr (Some b')
          \<and> map_of b' ''categories'' = map_of b ''categories''
          \<and> map_of b' ''total_allocated'' = map_of b ''total_allocated''
          \<and> map_of b' ''amount'' = Some (JNum a)))"
proof (intro conjI ballI impI)
  fix rq
  assume "rq \<in> set (issued w (snd (updateBudget supabase user i budgetData w)))"
  then obtain v p where p: "updateBudget_updateData budgetData = Inr p"
    and rq: "rq = UpdateSingle p i v \<or> rq = UpdateSingle (AList.delete ''categories'' p) i v"
    by (rule updateBudget_issued)
  have q: "\<exists>q. written rq = Some q \<and> (q = p \<or> q = AList.delete ''categories'' p)"
    using rq by auto
  then obtain q where wr: "written rq = Some q"
    and q: "q = p \<or> q = AList.delete ''categories'' p"
    by blast
  have 1: "map_of q ''total_allocated'' = None"
    using q updateBudget_updateData_no_total [OF p] by (auto simp: AList.delete_conv')
  have c: "map_of p ''categories'' = map_of budgetData ''categories''"
    by (rule updateBudget_updateData_fields(1) [OF p]) simp_all
  have 2: "map_of q ''categories'' = None
           \<or> map_of q ''categories'' = map_of budgetData ''categories''"
    using q c by (auto simp: AList.delete_conv')
  have 3: "\<forall>k. k \<notin> {''end_date'', ''total_allocated'', ''categories''} \<longrightarrow>
               map_of q k = map_of budgetData k"
  proof (intro allI impI)
    fix k :: string
    assume "k \<notin> {''end_date'', ''total_allocated'', ''categories''}"
    then have k: "k \<noteq> ''end_date''" "k \<noteq> ''total_allocated''" "k \<noteq> ''categories''"
      by blast+
    from q k(3) have "map_of q k = map_of p k"
      by (auto simp: AList.delete_conv')
    also have "\<dots> = map_of budgetData k"
      by (rule updateBudget_updateData_fields(1) [OF p k(1) k(2)])
    finally show "map_of q k = map_of budgetData k" .
  qed
  have e: "map_of q ''end_date'' = map_of p ''end_date''"
    using q by (auto simp: AList.delete_conv')
  show "\<exists>p. written rq = Some p
        \<and> map_of p ''total_allocated'' = None
        \<and> (map_of p ''categories'' = None
             \<or> map_of p ''categories'' = map_of budgetData ''categories'')
        \<and> (\<forall>k. k \<notin> {''end_date'', ''total_allocated'', ''categories''} \<longrightarrow>
               map_of p k = map_of budgetData k)
        \<and> (\<not> blank (map_of budgetData ''end_date'') \<longrightarrow>
               map_of p ''end_date'' = map_of budgetData ''end_date'')
        \<and> (blank (map_of budgetData ''end_date'') \<and> truthy (map_of budgetData ''start_date'') \<longrightarrow>
               map_of p ''end_date'' = map_of budgetData ''start_date'')
        \<and> (map_of budgetData ''end_date'' = None \<and> \<not> truthy (map_of budgetData ''start_date'') \<longrightarrow>
               map_of p ''end_date'' = None)"
    using wr 1 2 3 e updateBudget_updateData_fields(2,3,4) [OF p]
    by (intro exI [of _ q]) simp
next
  assume r: "filter (owned_with_id j u) (db t) = [r]"
  show "\<exists>b b'.
            fst (getBudgetById (Some (table_store other)) (Some u) j t) = Inr (Some b)
          \<and> fst (updateBudget (Some (table_store other)) (Some u) j [(''amount'', JNum a)] t)
              = Inr (Some (AList.update ''amount'' (JNum a) r))
          \<and> fst (getBudgetById (Some (table_store other)) (Some u) j
                (snd (updateBudget (Some (table_store other)) (Some u) j
                   [(''amount'', JNum a)] t)))
              = Inr (Some b')
          \<and> map_of b' ''categories'' = map_of b ''categories''
          \<and> map_of b' ''total_allocated'' = map_of b ''total_allocated''
          \<and> map_of b' ''amount'' = Some (JNum a)"
    using r updateBudget_amount_table [OF r, of other a]
    by (simp add: getBudgetById_table AList.update_conv')
qed

lemma trip_total:
  "calculateTotalAllocated trip_categories = Number (Num 700)"
  "calculateTotalAllocated_loop (Number (Num 0)) trip_categories = Number (Num 700)"
  by (simp_all add: trip_categories_def js_plus_def)

lemma trip_budget_found:
  "filter (owned_with_id ''b1'' ''u1'') (db (init_world [trip_budget])) = [trip_budget]"
  by (simp add: init_world_def owned_with_id_def trip_budget_def)

theorem update_writes_supplied_fields_witness:
  "filter (owned_with_id ''b1'' ''u1'') (db (init_world [trip_budget])) = [trip_budget]
   \<and> fst (getBudgetById (Some (table_store (failing_store connection_lost))) (Some ''u1'')
          ''b1'' (init_world [trip_budget]))
       = Inr (Some (trip_budget @ [(''total_allocated'', JNum (Num 700))]))
   \<and> fst (updateBudget (Some (table_store (failing_store connection_lost))) (Some ''u1'')
          ''b1'' [(''amount'', JNum (Num 500))] (init_world [trip_budget]))
       = Inr (Some (AList.update ''amount'' (JNum (Num 500)) trip_budget))
   \<and> fst (getBudgetById (Some (table_store (failing_store connection_lost))) (Some ''u1'')
          ''b1''
          (snd (updateBudget (Some (table_store (failing_store connection_lost)))
             (Some ''u1'') ''b1'' [(''amount'', JNum (Num 500))] (init_world [trip_budget]))))
       = Inr (Some (AList.update ''amount'' (JNum (Num 500)) trip_budget
                      @ [(''total_allocated'', JNum (Num 700))]))
   \<and> issued (init_world [trip_budget])
        (snd (updateBudget (Some (table_store (failing_store connection_lost)))
           (Some ''u1'') ''b1'' [(''amount'', JNum (Num 500))] (init_world [trip_budget])))
       = [UpdateSingle [(''amount'', JNum (Num 500))] ''b1'' ''u1'']"
proof -
  note inst = update_writes_supplied_fields
    [of "init_world [trip_budget]" "Some (table_store (failing_store connection_lost))"
        "Some ''u1''" "''b1''" "[(''amount'', JNum (Num 500))]"
        "''b1''" "''u1''" "init_world [trip_budget]" trip_budget
        "failing_store connection_lost" "Num 500"]
  have upd: "AList.update ''total_allocated'' v trip_budget
               = trip_budget @ [(''total_allocated'', v)]" for v
    by (simp add: trip_budget_def)
  have upd': "AList.update ''total_allocated'' v (AList.update ''amount'' x trip_budget)
               = AList.update ''amount'' x trip_budget @ [(''total_allocated'', v)]" for v x
    by (simp add: trip_budget_def)
  have cats: "map_of trip_budget ''categories'' = Some (JCats trip_categories)"
    "map_of (AList.update ''amount'' x trip_budget) ''categories'' = Some (JCats trip_categories)"
    for x
    by (simp_all add: trip_budget_def)
  have iss: "issued (init_world [trip_budget])
        (snd (updateBudget (Some (table_store (failing_store connection_lost)))
           (Some ''u1'') ''b1'' [(''amount'', JNum (Num 500))] (init_world [trip_budget])))
       = [UpdateSingle [(''amount'', JNum (Num 500))] ''b1'' ''u1'']"
    by (simp add: updateBudget_def updateBudget_updateData_amount send_def issued_def
        revalidatePath_def init_world_def table_store_simps table_update_single_def
        owned_with_id_def trip_budget_def)
  from inst trip_budget_found iss
    updateBudget_amount_table [OF trip_budget_found, of "failing_store connection_lost" "Num 500"]
  show ?thesis
    by (simp add: getBudgetById_table trip_total upd upd' cats)
qed

section \<open>Reading one budget\<close>

text \<open>
  On the budgets table, \<open>getBudgetById\<close> returns the stored budget with its computed
  \<open>total_allocated\<close> when the owner has exactly one budget with that id.
\<close>

lemma getBudgetById_found:
  "fst (getBudgetById (Some (table_store (failing_store connection_lost))) (Some ''u1'')
          ''b1'' (init_world [trip_budget]))
     = Inr (Some (trip_budget @ [(''total_allocated'', JNum (Num 700))]))"
proof -
  have "map_of trip_budget ''categories'' = Some (JCats trip_categories)"
    and "AList.update ''total_allocated'' v trip_budget
           = trip_budget @ [(''total_allocated'', v)]" for v
    by (simp_all add: trip_budget_def)
  then show ?thesis
    by (simp add: getBudgetById_table trip_budget_found trip_total)
qed

text \<open>
  C7. \<open>getBudgetById\<close> is to return none when the owner has no budget with that id.
  The query ends in \<open>.single()\<close>, which reports an error when no row results, so the
  check of the error on lines 93-96 throws and \<open>return null\<close> on line 97 is not
  reached: for an id that does not exist, and for the id of another owner's budget, the
  call fails with a storage error.
\<close>

theorem getBudgetById_not_found_fails:
  "fst (getBudgetById (Some (table_store (failing_store connection_lost))) (Some ''u1'')
          ''b2'' (init_world [trip_budget]))
     = Inl (StorageError
         ''Failed to fetch budget: JSON object requested, multiple (or no) rows returned'')
   \<and> fst (getBudgetById (Some (table_store (failing_store connection_lost))) (Some ''u2'')
          ''b1'' (init_world [trip_budget]))
     = Inl (StorageError
         ''Failed to fetch budget: JSON object requested, multiple (or no) rows returned'')"
  by (simp add: getBudgetById_table init_world_def trip_budget_def owned_with_id_def
      not_a_single_row_def)

text \<open>
  Whatever the datastore, \<open>getBudgetById\<close> returns none exactly when the response
  carries neither an error nor a row.
\<close>

lemma getBudgetById_none_iff:
  "fst (getBudgetById (Some ds) (Some u) i w) = Inr None
     \<longleftrightarrow> error (fst (select_single ds i u (db w))) = None
         \<and> data (fst (select_single ds i u (db w))) = None"
  by (cases "select_single ds i u (db w)")
     (simp add: getBudgetById_def send_def split: option.splits)

section \<open>Deleting\<close>

lemma deleteBudget_no_error:
  "error (fst (delete_rows ds i u (db w))) = None \<Longrightarrow>
   fst (deleteBudget (Some ds) (Some u) i w) = Inr ()"
  by (cases "delete_rows ds i u (db w)") (simp add: deleteBudget_def send_def)

lemma filter_none: "filter P t = [] \<Longrightarrow> filter (\<lambda>x. \<not> P x) t = t"
  by (induction t) (auto split: if_splits)

text \<open>
  C9. On the budgets table, \<open>deleteBudget\<close> for an id of which the owner has no budget
  succeeds and leaves the table as it was; a second \<open>deleteBudget\<close> for the same id
  right after a first one succeeds. With any datastore, \<open>deleteBudget\<close> succeeds
  whenever the delete query reports no error: it does not look at what was deleted.
\<close>

theorem deleteBudget_idempotent:
  "(filter (owned_with_id i u) (db w) = [] \<longrightarrow>
      fst (deleteBudget (Some (table_store other)) (Some u) i w) = Inr () \<and>
      db (snd (deleteBudget (Some (table_store other)) (Some u) i w)) = db w)
   \<and> fst (deleteBudget (Some (table_store other)) (Some u) i
           (snd (deleteBudget (Some (table_store other)) (Some u) i w))) = Inr ()
   \<and> (error (fst (delete_rows ds i u (db w'))) = None \<longrightarrow>
        fst (deleteBudget (Some ds) (Some u) i w') = Inr ())"
proof (intro conjI impI)
  assume "filter (owned_with_id i u) (db w) = []"
  then show "fst (deleteBudget (Some (table_store other)) (Some u) i w) = Inr ()"
    and "db (snd (deleteBudget (Some (table_store other)) (Some u) i w)) = db w"
    by (simp_all add: deleteBudget_def send_def table_store_simps table_delete_rows_def
        revalidatePath_def filter_none)
next
  show "fst (deleteBudget (Some (table_store other)) (Some u) i
           (snd (deleteBudget (Some (table_store other)) (Some u) i w))) = Inr ()"
    by (simp add: deleteBudget_def send_def table_store_simps table_delete_rows_def
        revalidatePath_def)
next
  assume "error (fst (delete_rows ds i u (db w'))) = None"
  then show "fst (deleteBudget (Some ds) (Some u) i w') = Inr ()"
    by (rule deleteBudget_no_error)
qed

theorem deleteBudget_idempotent_witness:
  "filter (owned_with_id ''b2'' ''u1'') (db (init_world [trip_budget])) = []
   \<and> fst (deleteBudget (Some (table_store (failing_store connection_lost))) (Some ''u1'')
          ''b2'' (init_world [trip_budget])) = Inr ()
   \<and> db (snd (deleteBudget (Some (table_store (failing_store connection_lost))) (Some ''u1'')
          ''b2'' (init_world [trip_budget]))) = [trip_budget]
   \<and> fst (deleteBudget (Some (table_store (failing_store connection_lost))) (Some ''u1'')
          ''b2''
          (snd (deleteBudget (Some (table_store (failing_store connection_lost)))
             (Some ''u1'') ''b2'' (init_world [trip_budget])))) = Inr ()
   \<and> error (fst (delete_rows scripted_store ''b2'' ''u1'' (db (init_world [])))) = None
   \<and> fst (deleteBudget (Some scripted_store) (Some ''u1'') ''b2'' (init_world [])) = Inr ()"
proof -
  have h: "filter (owned_with_id ''b2'' ''u1'') (db (init_world [trip_budget])) = []"
    by (simp add: init_world_def owned_with_id_def trip_budget_def)
  have e: "error (fst (delete_rows scripted_store ''b2'' ''u1'' (db (init_world [])))) = None"
    by (simp add: scripted_store_def init_world_def)
  from deleteBudget_idempotent [of "''b2''" "''u1''" "init_world [trip_budget]"
      "failing_store connection_lost" scripted_store "init_world []"] h e
  show ?thesis by (simp add: init_world_def)
qed

text \<open>Deleting the stored budget twice: the first call removes it, the second succeeds.\<close>

lemma deleteBudget_twice:
  "deleteBudget (Some (table_store (failing_store connection_lost))) (Some ''u1'') ''b1''
     (init_world [trip_budget])
     = (Inr (), \<lparr>db = [], calls = [DeleteRows ''b1'' ''u1''],
                revalidated = [''/budgets'', ''/dashboard'']\<rparr>)
   \<and> fst (deleteBudget (Some (table_store (failing_store connection_lost))) (Some ''u1'') ''b1''
        (snd (deleteBudget (Some (table_store (failing_store connection_lost))) (Some ''u1'')
           ''b1'' (init_world [trip_budget])))) = Inr ()"
  by (simp add: deleteBudget_def send_def table_store_simps table_delete_rows_def
      revalidatePath_def init_world_def owned_with_id_def trip_budget_def)

section \<open>The fallback on a missing column\<close>

text \<open>
  C5 (as stated). The datastore answers the query of \<open>getBudgetById\<close> with the error
  42703 (undefined column) and would answer a second query with success.
  \<open>getBudgetById\<close> sends the one query and fails: there is no retry. And the error of
  the datastore does not reach the caller unchanged: \<open>createBudget\<close>, answered with
  the message \<open>connection failure\<close>, throws a new error with the message
  \<open>Error creating budget: connection failure\<close>.
\<close>

theorem getBudgetById_schema_mismatch_not_retried:
  "getBudgetById (Some scripted_store) (Some ''u1'') ''b1''
     (init_world [Some undefined_column, None])
   = (Inl (StorageError ''Failed to fetch budget: column does not exist''),
      \<lparr>db = [None], calls = [SelectSingle ''b1'' ''u1''], revalidated = []\<rparr>)
   \<and> message connection_lost = ''connection failure''
   \<and> fst (createBudget (Some scripted_store) (Some ''u1'')
          [(''name'', JStr ''Trip''), (''start_date'', JStr ''2024-01-01'')]
          (init_world [Some connection_lost]))
     = Inl (StorageError ''Error creating budget: connection failure'')"
  by (simp add: getBudgetById_def createBudget_def createBudget_insertData_def send_def
      scripted_store_def init_world_def undefined_column_def connection_lost_def nullish_def)

text \<open>
  C5 (amended). \<open>getBudgets\<close> on a datastore error with code 42703, and
  \<open>createBudget\<close> and \<open>updateBudget\<close> on a datastore error with code 42703 or
  PGRST204, send exactly one more query, the same one with the \<open>categories\<close> field
  omitted; when that one fails too, the operation fails with the message of the second
  error, and when it succeeds the operation returns its data. On any other datastore
  error these three send no second query and fail with the message of the error.
  \<open>getBudgetById\<close> and \<open>deleteBudget\<close> send a single query whatever the response and
  fail with the message of any error. Each message follows the prefix of the operation.
\<close>

theorem schema_mismatch_fallback:
  "(case select_list ds full_columns u (db w) of (r1, d1) \<Rightarrow>
    case select_list ds fallback_columns u d1 of (r2, d2) \<Rightarrow>
      (case error r1 of
         None \<Rightarrow>
           issued w (snd (getBudgets (Some ds) (Some u) w)) = [SelectList full_columns u]
           \<and> fst (getBudgets (Some ds) (Some u) w)
               = Inr (map with_categories_and_total (rows_or_empty (data r1)))
       | Some e \<Rightarrow>
           if code e = ''42703''
           then issued w (snd (getBudgets (Some ds) (Some u) w))
                  = [SelectList full_columns u, SelectList fallback_columns u]
                \<and> (case error r2 of
                     Some fe \<Rightarrow>
                       fst (getBudgets (Some ds) (Some u) w)
                         = Inl (StorageError (''Failed to fetch budgets: '' @ message fe))
                   | None \<Rightarrow>
                       fst (getBudgets (Some ds) (Some u) w)
                         = Inr (map with_categories_and_total (rows_or_empty (data r2))))
           else issued w (snd (getBudgets (Some ds) (Some u) w)) = [SelectList full_columns u]
                \<and> fst (getBudgets (Some ds) (Some u) w)
                    = Inl (StorageError (''Failed to fetch budgets: '' @ message e))))
   \<and> (case createBudget_insertData u budgetData of
      Inl v \<Rightarrow> createBudget (Some ds) (Some u) budgetData w = (Inl v, w)
    | Inr p \<Rightarrow>
    case insert_single ds p (db w) of (r1, d1) \<Rightarrow>
    case insert_single ds (AList.delete ''categories'' p) d1 of (r2, d2) \<Rightarrow>
      (case error r1 of
         None \<Rightarrow>
           issued w (snd (createBudget (Some ds) (Some u) budgetData w)) = [InsertSingle p]
           \<and> fst (createBudget (Some ds) (Some u) budgetData w) = Inr (data r1)
       | Some e \<Rightarrow>
           if code e = ''42703'' \<or> code e = ''PGRST204''
           then issued w (snd (createBudget (Some ds) (Some u) budgetData w))
                  = [InsertSingle p, InsertSingle (AList.delete ''categories'' p)]
                \<and> (case error r2 of
                     Some fe \<Rightarrow>
                       fst (createBudget (Some ds) (Some u) budgetData w)
                         = Inl (StorageError (''Error creating budget: '' @ message fe))
                   | None \<Rightarrow> fst (createBudget (Some ds) (Some u) budgetData w) = Inr (data r2))
           else issued w (snd (createBudget (Some ds) (Some u) budgetData w)) = [InsertSingle p]
                \<and> fst (createBudget (Some ds) (Some u) budgetData w)
                    = Inl (StorageError (''Error creating budget: '' @ message e))))
   \<and> (case updateBudget_updateData budgetData of
      Inl v \<Rightarrow> updateBudget (Some ds) (Some u) i budgetData w = (Inl v, w)
    | Inr p \<Rightarrow>
    case update_single ds p i u (db w) of (r1, d1) \<Rightarrow>
    case update_single ds (AList.delete ''categories'' p) i u d1 of (r2, d2) \<Rightarrow>
      (case error r1 of
         None \<Rightarrow>
           issued w (snd (updateBudget (Some ds) (Some u) i budgetData w)) = [UpdateSingle p i u]
           \<and> fst (updateBudget (Some ds) (Some u) i budgetData w) = Inr (data r1)
       | Some e \<Rightarrow>
           if code e = ''42703'' \<or> code e = ''PGRST204''
           then issued w (snd (updateBudget (Some ds) (Some u) i budgetData w))
                  = [UpdateSingle p i u, UpdateSingle (AList.delete ''categories'' p) i u]
                \<and> (case error r2 of
                     Some fe \<Rightarrow>
                       fst (updateBudget (Some ds) (Some u) i budgetData w)
                         = Inl (StorageError (''Error updating budget: '' @ message fe))
                   | None \<Rightarrow> fst (updateBudget (Some ds) (Some u) i budgetData w) = Inr (data r2))
           else issued w (snd (updateBudget (Some ds) (Some u) i budgetData w))
                  = [UpdateSingle p i u]
                \<and> fst (updateBudget (Some ds) (Some u) i budgetData w)
                    = Inl (StorageError (''Error updating budget: '' @ message e))))
   \<and> (case select_single ds i u (db w) of (r, d) \<Rightarrow>
      issued w (snd (getBudgetById (Some ds) (Some u) i w)) = [SelectSingle i u]
      \<and> (case error r of
           Some e \<Rightarrow>
             fst (getBudgetById (Some ds) (Some u) i w)
               = Inl (StorageError (''Failed to fetch budget: '' @ message e))
         | None \<Rightarrow> (\<exists>b. fst (getBudgetById (Some ds) (Some u) i w) = Inr b)))
   \<and> (case delete_rows ds i u (db w) of (r, d) \<Rightarrow>
      issued w (snd (deleteBudget (Some ds) (Some u) i w)) = [DeleteRows i u]
      \<and> (case error r of
           Some e \<Rightarrow>
             fst (deleteBudget (Some ds) (Some u) i w)
               = Inl (StorageError (''Failed to delete budget: '' @ message e))
         | None \<Rightarrow> fst (deleteBudget (Some ds) (Some u) i w) = Inr ()))"
proof (intro conjI)
  show "case select_list ds full_columns u (db w) of (r1, d1) \<Rightarrow>
    case select_list ds fallback_columns u d1 of (r2, d2) \<Rightarrow>
      (case error r1 of
         None \<Rightarrow>
           issued w (snd (getBudgets (Some ds) (Some u) w)) = [SelectList full_columns u]
           \<and> fst (getBudgets (Some ds) (Some u) w)
               = Inr (map with_categories_and_total (rows_or_empty (data r1)))
       | Some e \<Rightarrow>
           if code e = ''42703''
           then issued w (snd (getBudgets (Some ds) (Some u) w))
                  = [SelectList full_columns u, SelectList fallback_columns u]
                \<and> (case error r2 of
                     Some fe \<Rightarrow>
                       fst (getBudgets (Some ds) (Some u) w)
                         = Inl (StorageError (''Failed to fetch budgets: '' @ message fe))
                   | None \<Rightarrow>
                       fst (getBudgets (Some ds) (Some u) w)
                         = Inr (map with_categories_and_total (rows_or_empty (data r2))))
           else issued w (snd (getBudgets (Some ds) (Some u) w)) = [SelectList full_columns u]
                \<and> fst (getBudgets (Some ds) (Some u) w)
                    = Inl (StorageError (''Failed to fetch budgets: '' @ message e)))"
    by (simp add: getBudgets_def send_def issued_def split: prod.splits option.splits)
qed (simp_all add: createBudget_def updateBudget_def getBudgetById_def deleteBudget_def
      send_def issued_def revalidatePath_def split: prod.splits option.splits sum.splits)

text \<open>
  A run of the fallback: the first insert is answered with 42703, the second with
  success; \<open>createBudget\<close> sends the payload, then the payload without
  \<open>categories\<close>, and returns.
\<close>

theorem schema_mismatch_fallback_witness:
  "createBudget (Some scripted_store) (Some ''u1'')
     [(''name'', JStr ''Trip''), (''start_date'', JStr ''2024-01-01''),
      (''categories'', JCats trip_categories)]
     (init_world [Some undefined_column, None])
   = (Inr None,
      \<lparr>db = [],
       calls =
         [InsertSingle
            [(''name'', JStr ''Trip''), (''start_date'', JStr ''2024-01-01''),
             (''categories'', JCats trip_categories), (''user_id'', JStr ''u1''),
             (''end_date'', JStr ''2024-01-01'')],
          InsertSingle
            [(''name'', JStr ''Trip''), (''start_date'', JStr ''2024-01-01''),
             (''user_id'', JStr ''u1''), (''end_date'', JStr ''2024-01-01'')]],
       revalidated = [''/budgets'', ''/dashboard'']\<rparr>)"
  using schema_mismatch_fallback [where ds = scripted_store and u = "''u1''"
      and w = "init_world [Some undefined_column, None]"
      and budgetData = "[(''name'', JStr ''Trip''), (''start_date'', JStr ''2024-01-01''),
        (''categories'', JCats trip_categories)]" and i = "''b1''"]
  by (simp add: createBudget_def createBudget_insertData_def send_def scripted_store_def
      init_world_def undefined_column_def revalidatePath_def nullish_def)

end
